theory Spec2Isabelle
  imports Main
begin

section \<open>Jira integration plugin: the tool catalog and the dispatcher \<open>call_tool\<close>\<close>

text \<open>
  A shallow embedding of \<^verbatim>\<open>official/jira-integration/server.py\<close>. The module has three
  functions: \<^verbatim>\<open>get_jira_client\<close> (a lazily created, process-wide client),
  \<^verbatim>\<open>list_tools\<close> (the static catalog of eight tools) and \<^verbatim>\<open>call_tool\<close> (the
  dispatcher, one \<^verbatim>\<open>elif\<close> branch per tool, wrapped in one \<^verbatim>\<open>try\<close>).

  Conventions of the model.
  \<^item> Untyped Python values (\<^verbatim>\<open>Dict[str, Any]\<close> arguments, JSON payloads) are values of the
    datatype \<open>jv\<close>. Floating-point numbers are not modelled.
  \<^item> Strings are byte strings (UTF-8); \<^verbatim>\<open>str.lower\<close> is modelled on the ASCII letters and
    leaves every other byte unchanged.
  \<^item> The Jira client is an external collaborator. It is a record of response functions, one
    per operation the module calls; every operation either returns a value or raises.
  \<^item> Exceptions are values of the datatype \<open>exc\<close>; a computation returns
    \<open>exc + 'a\<close> (\<open>Inl\<close> is a raise). The model covers the subclasses of \<^verbatim>\<open>Exception\<close>.
  \<^item> Every call on the client is recorded, in order, in a list of \<open>call\<close> events, so
    that "no call was issued" is a statement about that list.
  \<^item> \<^verbatim>\<open>json.dumps(v, indent=2)\<close> and the interpolation of an untyped value in an f-string
    are kept symbolic (\<open>JsonDumps v\<close>, \<open>Format v\<close>); literal text is \<open>Lit\<close>.
\<close>

subsection \<open>Values\<close>

datatype jv =
    JNull
  | JBool bool
  | JInt int
  | JStr string
  | JList "jv list"
  | JObj "(string \<times> jv) list"

type_synonym arguments = "string \<rightharpoonup> jv"

text \<open>Python truthiness, as used by \<^verbatim>\<open>if x:\<close>, \<^verbatim>\<open>not x\<close> and \<^verbatim>\<open>x if c else y\<close>.\<close>

fun truthy :: "jv \<Rightarrow> bool" where
  "truthy JNull = False"
| "truthy (JBool b) = b"
| "truthy (JInt i) = (i \<noteq> 0)"
| "truthy (JStr s) = (s \<noteq> [])"
| "truthy (JList xs) = (xs \<noteq> [])"
| "truthy (JObj kvs) = (kvs \<noteq> [])"

text \<open>\<^verbatim>\<open>type(v).__name__\<close>, as it appears in the messages of \<^verbatim>\<open>TypeError\<close> and
  \<^verbatim>\<open>AttributeError\<close>.\<close>

fun type_name :: "jv \<Rightarrow> string" where
  "type_name JNull = ''NoneType''"
| "type_name (JBool b) = ''bool''"
| "type_name (JInt i) = ''int''"
| "type_name (JStr s) = ''str''"
| "type_name (JList xs) = ''list''"
| "type_name (JObj kvs) = ''dict''"

subsection \<open>Strings\<close>

definition nl :: string where
  "nl = [CHR 0x0A]"

text \<open>The two markers that start a rendered outcome: U+274C and U+2705, in UTF-8.\<close>

definition cross_mark :: string where
  "cross_mark = [CHR 0xE2, CHR 0x9D, CHR 0x8C]"

definition check_mark :: string where
  "check_mark = [CHR 0xE2, CHR 0x9C, CHR 0x85]"

text \<open>\<^verbatim>\<open>str.lower\<close> on ASCII: a byte is an upper-case letter when its top three bits are
  \<open>010\<close> and its low five bits are between 1 and 26; lowering sets bit 5.\<close>

fun lower_char :: "char \<Rightarrow> char" where
  "lower_char (Char b0 b1 b2 b3 b4 b5 b6 b7) =
     (if \<not> b7 \<and> b6 \<and> \<not> b5 \<and> (b0 \<or> b1 \<or> b2 \<or> b3 \<or> b4) \<and> \<not> (b4 \<and> b3 \<and> (b2 \<or> (b1 \<and> b0)))
      then Char b0 b1 b2 b3 b4 True b6 b7
      else Char b0 b1 b2 b3 b4 b5 b6 b7)"

definition lower :: "string \<Rightarrow> string" where
  "lower s = map lower_char s"

text \<open>\<^verbatim>\<open>sep.join(parts)\<close> for a list of strings.\<close>

fun join :: "string \<Rightarrow> string list \<Rightarrow> string" where
  "join sep [] = []"
| "join sep [s] = s"
| "join sep (s # t # ts) = s @ sep @ join sep (t # ts)"

text \<open>\<^verbatim>\<open>sub in s\<close> for two strings: \<open>sub\<close> occurs in \<open>s\<close> as a contiguous block.\<close>

fun str_contains :: "string \<Rightarrow> string \<Rightarrow> bool" where
  "str_contains [] sub = (sub = [])"
| "str_contains (c # cs) sub = (take (length sub) (c # cs) = sub \<or> str_contains cs sub)"

text \<open>\<^verbatim>\<open>str(n)\<close> for integers: decimal digits, a minus sign for negative numbers.\<close>

definition digit :: "nat \<Rightarrow> char" where
  "digit d = (''0123456789'' ! d)"

function str_nat :: "nat \<Rightarrow> string" where
  "str_nat n = (if n < 10 then [digit n] else str_nat (n div 10) @ [digit (n mod 10)])"
  by pat_completeness auto
termination
  by (relation "measure (\<lambda>n. n)") auto

declare str_nat.simps [simp del]

definition str_int :: "int \<Rightarrow> string" where
  "str_int i = (if i < 0 then ''-'' @ str_nat (nat (- i)) else str_nat (nat i))"

subsection \<open>Exceptions\<close>

datatype exc =
    JIRAError int string
  | KeyError string
  | ValueError string
  | TypeError string
  | AttributeError string
  | OtherException string

text \<open>\<^verbatim>\<open>str(e)\<close> for the exceptions caught by \<^verbatim>\<open>except Exception\<close>. A \<^verbatim>\<open>KeyError\<close> prints the
  \<^verbatim>\<open>repr\<close> of the missing key; the keys the module subscripts are plain identifiers, whose
  \<^verbatim>\<open>repr\<close> is the key between single quotes.\<close>

fun str_exc :: "exc \<Rightarrow> string" where
  "str_exc (KeyError k) = [CHR 0x27] @ k @ [CHR 0x27]"
| "str_exc (ValueError m) = m"
| "str_exc (TypeError m) = m"
| "str_exc (AttributeError m) = m"
| "str_exc (OtherException m) = m"
| "str_exc (JIRAError s t) = t"

text \<open>The last equation is never used by \<open>call_tool\<close>: a \<^verbatim>\<open>JIRAError\<close> is taken by the first
  \<^verbatim>\<open>except\<close> clause, which formats status code and text itself.\<close>

subsection \<open>What the Jira client returns\<close>

text \<open>The attributes of an issue that the module reads. \<open>None\<close> in an optional attribute
  stands for a falsy \<^verbatim>\<open>issue.fields.assignee\<close> (and so on); otherwise the field holds the
  \<^verbatim>\<open>displayName\<close> or \<^verbatim>\<open>name\<close> that is read from it.\<close>

record issue =
  i_key :: string
  i_summary :: jv
  i_description :: jv
  i_status_name :: jv
  i_issuetype_name :: jv
  i_assignee :: "jv option"
  i_reporter :: "jv option"
  i_priority :: "jv option"
  i_labels :: jv
  i_created :: string
  i_updated :: string

record comment =
  c_author_displayName :: jv
  c_body :: jv
  c_created :: string

text \<open>A transition candidate: \<^verbatim>\<open>t["id"]\<close>, \<^verbatim>\<open>t["name"]\<close> and \<^verbatim>\<open>t["to"]["name"]\<close>.\<close>

record transition =
  t_id :: string
  t_name :: string
  t_to_name :: jv

text \<open>A project: \<open>p_archived\<close> and \<open>p_lead\<close> are \<open>None\<close> when \<^verbatim>\<open>hasattr\<close> is false.\<close>

record project =
  p_key :: string
  p_name :: jv
  p_lead :: "jv option"
  p_archived :: "bool option"

type_synonym fields = "(string \<times> jv) list"

record client =
  jira_search_issues :: "jv \<Rightarrow> jv \<Rightarrow> jv \<Rightarrow> exc + issue list"
  jira_issue :: "jv \<Rightarrow> string option \<Rightarrow> exc + issue"
  jira_comments :: "issue \<Rightarrow> exc + comment list"
  jira_client_info :: "exc + string"
  jira_create_issue :: "fields \<Rightarrow> exc + issue"
  issue_update :: "issue \<Rightarrow> fields \<Rightarrow> exc + unit"
  jira_add_comment :: "jv \<Rightarrow> jv \<Rightarrow> exc + unit"
  jira_transitions :: "jv \<Rightarrow> exc + transition list"
  jira_transition_issue :: "jv \<Rightarrow> string \<Rightarrow> jv \<Rightarrow> exc + unit"
  jira_projects :: "exc + project list"

text \<open>The calls on the client, as they are recorded. \<open>Connect\<close> is the construction
  \<^verbatim>\<open>JIRA(server=..., basic_auth=(email, token))\<close>.\<close>

datatype call =
    Connect string string string
  | SearchIssues jv jv jv
  | GetIssue jv "string option"
  | Comments string
  | ClientInfo
  | CreateIssue fields
  | UpdateIssue string fields
  | AddComment jv jv
  | Transitions jv
  | TransitionIssue jv string jv
  | Projects

text \<open>The calls that change the tracker.\<close>

fun mutating :: "call \<Rightarrow> bool" where
  "mutating (CreateIssue f) = True"
| "mutating (UpdateIssue k f) = True"
| "mutating (AddComment k c) = True"
| "mutating (TransitionIssue k i c) = True"
| "mutating ev = False"

text \<open>The process environment and the constructor of the client class.\<close>

record config =
  env_JIRA_URL :: "string option"
  env_JIRA_EMAIL :: "string option"
  env_JIRA_API_TOKEN :: "string option"
  JIRA :: "string \<Rightarrow> string \<Rightarrow> string \<Rightarrow> exc + client"

subsection \<open>Computations that call the client and may raise\<close>

type_synonym 'a comp = "call list \<times> (exc + 'a)"

definition returns :: "'a \<Rightarrow> 'a comp" where
  "returns v = ([], Inr v)"

definition raises :: "exc \<Rightarrow> 'a comp" where
  "raises e = ([], Inl e)"

text \<open>\<open>call_client ev r k\<close>: the client is called (event \<open>ev\<close>) and answers \<open>r\<close>; when it
  returns a value the computation continues with \<open>k\<close>, when it raises, the exception
  propagates and nothing after the call runs.\<close>

definition call_client :: "call \<Rightarrow> exc + 'a \<Rightarrow> ('a \<Rightarrow> 'b comp) \<Rightarrow> 'b comp" where
  "call_client ev r k =
     (case r of
        Inl e \<Rightarrow> ([ev], Inl e)
      | Inr v \<Rightarrow> (case k v of (tr, out) \<Rightarrow> (ev # tr, out)))"

text \<open>\<open>try_eval r k\<close>: a step that calls nothing but may raise.\<close>

definition try_eval :: "exc + 'a \<Rightarrow> ('a \<Rightarrow> 'b comp) \<Rightarrow> 'b comp" where
  "try_eval r k = (case r of Inl e \<Rightarrow> ([], Inl e) | Inr v \<Rightarrow> k v)"

text \<open>\<^verbatim>\<open>arguments[k]\<close> and \<^verbatim>\<open>arguments.get(k, d)\<close>; \<^verbatim>\<open>arguments.get(k)\<close> is
  \<open>get_arg arguments k JNull\<close>.\<close>

definition subscript :: "arguments \<Rightarrow> string \<Rightarrow> exc + jv" where
  "subscript arguments k = (case arguments k of None \<Rightarrow> Inl (KeyError k) | Some v \<Rightarrow> Inr v)"

definition get_arg :: "arguments \<Rightarrow> string \<Rightarrow> jv \<Rightarrow> jv" where
  "get_arg arguments k d = (case arguments k of None \<Rightarrow> d | Some v \<Rightarrow> v)"

subsection \<open>\<^verbatim>\<open>get_jira_client\<close>\<close>

definition missing_configuration :: string where
  "missing_configuration =
     ''Missing Jira configuration. Required environment variables: '' @
     ''JIRA_URL, JIRA_EMAIL, JIRA_API_TOKEN''"

text \<open>The truth value of an \<^verbatim>\<open>Optional[str]\<close>, as \<^verbatim>\<open>all([...])\<close> tests it.\<close>

fun env_set :: "string option \<Rightarrow> bool" where
  "env_set None = False"
| "env_set (Some s) = (s \<noteq> [])"

text \<open>The global \<^verbatim>\<open>_jira_client\<close> is passed in and returned. It is assigned only when the
  constructor returns.\<close>

definition get_jira_client :: "config \<Rightarrow> client option \<Rightarrow> client comp \<times> client option" where
  "get_jira_client cfg jira_client_global =
     (case jira_client_global of
        Some c \<Rightarrow> (returns c, Some c)
      | None \<Rightarrow>
          (if \<not> (env_set (env_JIRA_URL cfg) \<and> env_set (env_JIRA_EMAIL cfg)
                   \<and> env_set (env_JIRA_API_TOKEN cfg))
           then (raises (ValueError missing_configuration), None)
           else
             (let jira_url = the (env_JIRA_URL cfg);
                  jira_email = the (env_JIRA_EMAIL cfg);
                  jira_token = the (env_JIRA_API_TOKEN cfg)
              in case JIRA cfg jira_url jira_email jira_token of
                   Inl e \<Rightarrow> (([Connect jira_url jira_email jira_token], Inl e), None)
                 | Inr c \<Rightarrow> (([Connect jira_url jira_email jira_token], Inr c), Some c))))"

subsection \<open>Rendered text\<close>

text \<open>The text of a result is a sequence of pieces: literal text, the interpolation
  \<^verbatim>\<open>{v}\<close> of an untyped value in an f-string (\<^verbatim>\<open>str(v)\<close>), and
  \<^verbatim>\<open>json.dumps(v, indent=2)\<close>.\<close>

datatype piece = Lit string | Format jv | JsonDumps jv

text \<open>\<^verbatim>\<open>TextContent(type=..., text=...)\<close>.\<close>

datatype text_content = TextContent string "piece list"

definition text_result :: "piece list \<Rightarrow> text_content list" where
  "text_result ps = [TextContent ''text'' ps]"

subsection \<open>The branches of \<^verbatim>\<open>call_tool\<close>\<close>

text \<open>The dictionary built for each issue by the search branch.\<close>

definition search_issue_data :: "issue \<Rightarrow> jv" where
  "search_issue_data i = JObj
     [(''key'', JStr (i_key i)),
      (''summary'', i_summary i),
      (''status'', i_status_name i),
      (''issue_type'', i_issuetype_name i),
      (''assignee'', case i_assignee i of None \<Rightarrow> JStr ''Unassigned'' | Some d \<Rightarrow> d),
      (''reporter'', case i_reporter i of None \<Rightarrow> JNull | Some d \<Rightarrow> d),
      (''priority'', case i_priority i of None \<Rightarrow> JNull | Some d \<Rightarrow> d),
      (''created'', JStr (i_created i)),
      (''updated'', JStr (i_updated i))]"

definition branch_search_issues :: "client \<Rightarrow> arguments \<Rightarrow> text_content list comp" where
  "branch_search_issues jira arguments =
     try_eval (subscript arguments ''jql'') (\<lambda>jql.
       let max_results = get_arg arguments ''max_results'' (JInt 50);
           fields = get_arg arguments ''fields'' JNull
       in call_client (SearchIssues jql max_results fields)
            (jira_search_issues jira jql max_results fields) (\<lambda>issues.
              let results = map search_issue_data issues
              in returns (text_result
                   [Lit (''Found '' @ str_nat (length results) @ '' issue(s):'' @ nl @ nl),
                    JsonDumps (JList results)])))"

text \<open>\<^verbatim>\<open>",".join(expand) if expand else None\<close> for an untyped \<open>expand\<close>. Joining a list needs
  every item to be a string; a string is joined character by character, a dictionary by its
  keys; a number or a boolean is not iterable.\<close>

fun str_items :: "nat \<Rightarrow> jv list \<Rightarrow> exc + string list" where
  "str_items n [] = Inr []"
| "str_items n (JStr s # xs) =
     (case str_items (Suc n) xs of Inl e \<Rightarrow> Inl e | Inr ss \<Rightarrow> Inr (s # ss))"
| "str_items n (x # xs) =
     Inl (TypeError (''sequence item '' @ str_nat n @ '': expected str instance, ''
                     @ type_name x @ '' found''))"

definition join_expand :: "jv \<Rightarrow> exc + string option" where
  "join_expand expand =
     (if \<not> truthy expand then Inr None
      else case expand of
          JList xs \<Rightarrow> (case str_items 0 xs of Inl e \<Rightarrow> Inl e | Inr ss \<Rightarrow> Inr (Some (join '','' ss)))
        | JStr s \<Rightarrow> Inr (Some (join '','' (map (\<lambda>c. [c]) s)))
        | JObj kvs \<Rightarrow> Inr (Some (join '','' (map fst kvs)))
        | _ \<Rightarrow> Inl (TypeError ''can only join an iterable''))"

text \<open>\<^verbatim>\<open>"comments" in expand\<close>: membership in a list, occurrence in a string, a key of a
  dictionary.\<close>

definition comments_in :: "jv \<Rightarrow> exc + bool" where
  "comments_in expand =
     (case expand of
          JList xs \<Rightarrow> Inr (JStr ''comments'' \<in> set xs)
        | JStr s \<Rightarrow> Inr (str_contains s ''comments'')
        | JObj kvs \<Rightarrow> Inr (''comments'' \<in> set (map fst kvs))
        | _ \<Rightarrow> Inl (TypeError (''argument of type '' @ [CHR 0x27] @ type_name expand
                                @ [CHR 0x27] @ '' is not iterable'')))"

definition get_issue_data :: "issue \<Rightarrow> string \<Rightarrow> fields" where
  "get_issue_data i client_info =
     [(''key'', JStr (i_key i)),
      (''summary'', i_summary i),
      (''description'', i_description i),
      (''status'', i_status_name i),
      (''issue_type'', i_issuetype_name i),
      (''assignee'', case i_assignee i of None \<Rightarrow> JStr ''Unassigned'' | Some d \<Rightarrow> d),
      (''reporter'', case i_reporter i of None \<Rightarrow> JNull | Some d \<Rightarrow> d),
      (''priority'', case i_priority i of None \<Rightarrow> JNull | Some d \<Rightarrow> d),
      (''labels'', i_labels i),
      (''created'', JStr (i_created i)),
      (''updated'', JStr (i_updated i)),
      (''url'', JStr (client_info @ ''/browse/'' @ i_key i))]"

definition comment_data :: "comment \<Rightarrow> jv" where
  "comment_data c = JObj
     [(''author'', c_author_displayName c),
      (''body'', c_body c),
      (''created'', JStr (c_created c))]"

definition branch_get_issue :: "client \<Rightarrow> arguments \<Rightarrow> text_content list comp" where
  "branch_get_issue jira arguments =
     try_eval (subscript arguments ''issue_key'') (\<lambda>issue_key.
       let expand = get_arg arguments ''expand'' JNull
       in try_eval (join_expand expand) (\<lambda>joined.
            call_client (GetIssue issue_key joined) (jira_issue jira issue_key joined) (\<lambda>issue.
              call_client ClientInfo (jira_client_info jira) (\<lambda>client_info.
                let issue_data = get_issue_data issue client_info
                in if \<not> truthy expand
                   then returns (text_result [JsonDumps (JObj issue_data)])
                   else try_eval (comments_in expand) (\<lambda>wanted.
                     if wanted
                     then call_client (Comments (i_key issue)) (jira_comments jira issue) (\<lambda>comments.
                            returns (text_result [JsonDumps (JObj
                              (issue_data @ [(''comments'', JList (map comment_data comments))]))]))
                     else returns (text_result [JsonDumps (JObj issue_data)]))))))"

text \<open>The field map of the create branch: four keys always, three more when their value is
  truthy.\<close>

definition create_issue_dict :: "jv \<Rightarrow> jv \<Rightarrow> jv \<Rightarrow> jv \<Rightarrow> jv \<Rightarrow> jv \<Rightarrow> jv \<Rightarrow> fields" where
  "create_issue_dict project summary description issue_type priority assignee labels =
     [(''project'', JObj [(''key'', project)]),
      (''summary'', summary),
      (''description'', description),
      (''issuetype'', JObj [(''name'', issue_type)])]
     @ (if truthy priority then [(''priority'', JObj [(''name'', priority)])] else [])
     @ (if truthy assignee then [(''assignee'', JObj [(''name'', assignee)])] else [])
     @ (if truthy labels then [(''labels'', labels)] else [])"

definition branch_create_issue :: "client \<Rightarrow> arguments \<Rightarrow> text_content list comp" where
  "branch_create_issue jira arguments =
     try_eval (subscript arguments ''project'') (\<lambda>project.
       try_eval (subscript arguments ''summary'') (\<lambda>summary.
         let description = get_arg arguments ''description'' (JStr []);
             issue_type = get_arg arguments ''issue_type'' (JStr ''Task'');
             priority = get_arg arguments ''priority'' JNull;
             assignee = get_arg arguments ''assignee'' JNull;
             labels = get_arg arguments ''labels'' (JList []);
             issue_dict = create_issue_dict project summary description issue_type
                            priority assignee labels
         in call_client (CreateIssue issue_dict) (jira_create_issue jira issue_dict) (\<lambda>new_issue.
              call_client ClientInfo (jira_client_info jira) (\<lambda>client_info.
                returns (text_result
                  [Lit (check_mark @ '' Issue created successfully!'' @ nl @ nl
                        @ ''Key: '' @ i_key new_issue @ nl
                        @ ''URL: '' @ client_info @ ''/browse/'' @ i_key new_issue @ nl
                        @ ''Summary: ''),
                   Format summary])))))"

text \<open>The field map of the update branch: one entry for each of the five keys that is
  \<^verbatim>\<open>in arguments\<close>, in the order of the five tests.\<close>

definition update_fields :: "arguments \<Rightarrow> fields" where
  "update_fields arguments =
       (case arguments ''summary'' of None \<Rightarrow> [] | Some v \<Rightarrow> [(''summary'', v)])
     @ (case arguments ''description'' of None \<Rightarrow> [] | Some v \<Rightarrow> [(''description'', v)])
     @ (case arguments ''priority'' of None \<Rightarrow> []
          | Some v \<Rightarrow> [(''priority'', JObj [(''name'', v)])])
     @ (case arguments ''assignee'' of None \<Rightarrow> []
          | Some v \<Rightarrow> [(''assignee'', JObj [(''name'', v)])])
     @ (case arguments ''labels'' of None \<Rightarrow> [] | Some v \<Rightarrow> [(''labels'', v)])"

definition branch_update_issue :: "client \<Rightarrow> arguments \<Rightarrow> text_content list comp" where
  "branch_update_issue jira arguments =
     try_eval (subscript arguments ''issue_key'') (\<lambda>issue_key.
       call_client (GetIssue issue_key None) (jira_issue jira issue_key None) (\<lambda>issue.
         call_client (UpdateIssue (i_key issue) (update_fields arguments))
           (issue_update jira issue (update_fields arguments)) (\<lambda>u.
             returns (text_result
               [Lit (check_mark @ '' Issue ''), Format issue_key,
                Lit '' updated successfully!'']))))"

definition branch_add_comment :: "client \<Rightarrow> arguments \<Rightarrow> text_content list comp" where
  "branch_add_comment jira arguments =
     try_eval (subscript arguments ''issue_key'') (\<lambda>issue_key.
       try_eval (subscript arguments ''comment'') (\<lambda>comment.
         call_client (AddComment issue_key comment) (jira_add_comment jira issue_key comment) (\<lambda>u.
           returns (text_result [Lit (check_mark @ '' Comment added to ''), Format issue_key]))))"

text \<open>The matching loop of the transition branch. \<open>None\<close> is \<^verbatim>\<open>transition_id = None\<close> after a
  loop that never reached \<^verbatim>\<open>break\<close>; \<open>Some (id, name)\<close> holds \<^verbatim>\<open>transition_id\<close> and
  \<^verbatim>\<open>transition_name\<close> as assigned before the \<^verbatim>\<open>break\<close>.\<close>

fun find_transition :: "transition list \<Rightarrow> string \<Rightarrow> (string \<times> string) option" where
  "find_transition [] token = None"
| "find_transition (t # ts) token =
     (if lower (t_name t) = lower token \<or> t_id t = token
      then Some (t_id t, t_name t)
      else find_transition ts token)"

text \<open>The loop on an untyped token: \<^verbatim>\<open>transition.lower()\<close> is evaluated in the first
  iteration, and raises on a value that is not a string.\<close>

definition match_transition :: "transition list \<Rightarrow> jv \<Rightarrow> exc + (string \<times> string) option" where
  "match_transition transitions token =
     (case token of
        JStr s \<Rightarrow> Inr (find_transition transitions s)
      | _ \<Rightarrow> (if transitions = [] then Inr None
              else Inl (AttributeError ([CHR 0x27] @ type_name token @ [CHR 0x27]
                          @ '' object has no attribute '' @ [CHR 0x27] @ ''lower'' @ [CHR 0x27]))))"

text \<open>\<^verbatim>\<open>not transition_id\<close>: true for \<^verbatim>\<open>None\<close> and for the empty string.\<close>

fun not_transition_id :: "(string \<times> string) option \<Rightarrow> bool" where
  "not_transition_id None = True"
| "not_transition_id (Some (transition_id, transition_name)) = (transition_id = [])"

definition transition_not_found :: "jv \<Rightarrow> transition list \<Rightarrow> text_content list" where
  "transition_not_found token transitions =
     text_result
       [Lit (cross_mark @ '' Transition '' @ [CHR 0x27]), Format token,
        Lit ([CHR 0x27] @ '' not found.'' @ nl @ nl
             @ ''Available transitions: '' @ join '', '' (map t_name transitions))]"

definition branch_transition_issue :: "client \<Rightarrow> arguments \<Rightarrow> text_content list comp" where
  "branch_transition_issue jira arguments =
     try_eval (subscript arguments ''issue_key'') (\<lambda>issue_key.
       try_eval (subscript arguments ''transition'') (\<lambda>token.
         let comment = get_arg arguments ''comment'' JNull
         in call_client (Transitions issue_key) (jira_transitions jira issue_key) (\<lambda>transitions.
              try_eval (match_transition transitions token) (\<lambda>found.
                if not_transition_id found
                then returns (transition_not_found token transitions)
                else
                  (let transition_id = fst (the found); transition_name = snd (the found)
                   in call_client (TransitionIssue issue_key transition_id comment)
                        (jira_transition_issue jira issue_key transition_id comment) (\<lambda>u.
                          returns (text_result
                            [Lit (check_mark @ '' Issue ''), Format issue_key,
                             Lit ('' transitioned to '' @ [CHR 0x27] @ transition_name
                                  @ [CHR 0x27])])))))))"

definition transition_data :: "transition \<Rightarrow> jv" where
  "transition_data t = JObj
     [(''id'', JStr (t_id t)),
      (''name'', JStr (t_name t)),
      (''to_status'', t_to_name t)]"

definition branch_get_transitions :: "client \<Rightarrow> arguments \<Rightarrow> text_content list comp" where
  "branch_get_transitions jira arguments =
     try_eval (subscript arguments ''issue_key'') (\<lambda>issue_key.
       call_client (Transitions issue_key) (jira_transitions jira issue_key) (\<lambda>transitions.
         returns (text_result [JsonDumps (JObj
           [(''issue'', issue_key),
            (''available_transitions'', JList (map transition_data transitions))])])))"

text \<open>The loop of the projects branch: an archived project is skipped unless the caller
  asked for archived ones; every project that is kept costs one \<^verbatim>\<open>client_info\<close> call.\<close>

definition project_data :: "project \<Rightarrow> string \<Rightarrow> jv" where
  "project_data p client_info = JObj
     [(''key'', JStr (p_key p)),
      (''name'', p_name p),
      (''lead'', case p_lead p of None \<Rightarrow> JNull | Some d \<Rightarrow> d),
      (''url'', JStr (client_info @ ''/browse/'' @ p_key p))]"

fun project_results :: "client \<Rightarrow> jv \<Rightarrow> project list \<Rightarrow> jv list comp" where
  "project_results jira include_archived [] = returns []"
| "project_results jira include_archived (p # ps) =
     (if \<not> truthy include_archived \<and> (case p_archived p of None \<Rightarrow> False | Some a \<Rightarrow> a)
      then project_results jira include_archived ps
      else call_client ClientInfo (jira_client_info jira) (\<lambda>client_info.
             case project_results jira include_archived ps of
               (tr, Inl e) \<Rightarrow> (tr, Inl e)
             | (tr, Inr rest) \<Rightarrow> (tr, Inr (project_data p client_info # rest))))"

definition branch_list_projects :: "client \<Rightarrow> arguments \<Rightarrow> text_content list comp" where
  "branch_list_projects jira arguments =
     (let include_archived = get_arg arguments ''include_archived'' (JBool False)
      in call_client Projects (jira_projects jira) (\<lambda>projects.
           case project_results jira include_archived projects of
             (tr, Inl e) \<Rightarrow> (tr, Inl e)
           | (tr, Inr result) \<Rightarrow>
               (tr, Inr (text_result
                  [Lit (''Found '' @ str_nat (length result) @ '' project(s):'' @ nl @ nl),
                   JsonDumps (JList result)]))))"

subsection \<open>\<^verbatim>\<open>call_tool\<close>\<close>

text \<open>The \<^verbatim>\<open>if\<close>/\<^verbatim>\<open>elif\<close> chain on the tool name, entered with the client in hand.\<close>

definition dispatch :: "client \<Rightarrow> string \<Rightarrow> arguments \<Rightarrow> text_content list comp" where
  "dispatch jira name arguments =
     (if name = ''jira_search_issues'' then branch_search_issues jira arguments
      else if name = ''jira_get_issue'' then branch_get_issue jira arguments
      else if name = ''jira_create_issue'' then branch_create_issue jira arguments
      else if name = ''jira_update_issue'' then branch_update_issue jira arguments
      else if name = ''jira_add_comment'' then branch_add_comment jira arguments
      else if name = ''jira_transition_issue'' then branch_transition_issue jira arguments
      else if name = ''jira_get_transitions'' then branch_get_transitions jira arguments
      else if name = ''jira_list_projects'' then branch_list_projects jira arguments
      else returns (text_result [Lit (cross_mark @ '' Unknown tool: '' @ name)]))"

text \<open>The body of the \<^verbatim>\<open>try\<close>: the client is obtained first, then the name is examined.
  The second component is the global \<^verbatim>\<open>_jira_client\<close> afterwards.\<close>

definition try_body ::
  "config \<Rightarrow> client option \<Rightarrow> string \<Rightarrow> arguments \<Rightarrow> text_content list comp \<times> client option" where
  "try_body cfg jira_client_global name arguments =
     (case get_jira_client cfg jira_client_global of
        ((tr, Inl e), g) \<Rightarrow> ((tr, Inl e), g)
      | ((tr, Inr jira), g) \<Rightarrow>
          (case dispatch jira name arguments of (tr', out) \<Rightarrow> ((tr @ tr', out), g)))"

text \<open>The two \<^verbatim>\<open>except\<close> clauses, in their order.\<close>

fun handle_exception :: "exc \<Rightarrow> text_content list" where
  "handle_exception (JIRAError status_code text) =
     text_result [Lit (cross_mark @ '' Jira Error: '' @ str_int status_code @ '' - '' @ text)]"
| "handle_exception e =
     text_result [Lit (cross_mark @ '' Error: '' @ str_exc e)]"

text \<open>The result of one invocation: what is returned to the caller, the calls made on the
  client, and the global client afterwards.\<close>

record invocation =
  returned :: "text_content list"
  calls :: "call list"
  jira_client_after :: "client option"

definition call_tool :: "config \<Rightarrow> client option \<Rightarrow> string \<Rightarrow> arguments \<Rightarrow> invocation" where
  "call_tool cfg jira_client_global name arguments =
     (case try_body cfg jira_client_global name arguments of
        ((tr, out), g) \<Rightarrow>
          \<lparr> returned = (case out of Inr result \<Rightarrow> result | Inl e \<Rightarrow> handle_exception e),
            calls = tr,
            jira_client_after = g \<rparr>)"

subsection \<open>\<^verbatim>\<open>list_tools\<close>: the catalog\<close>

text \<open>A JSON-schema property of a tool: its name (the key in \<^verbatim>\<open>properties\<close>), its
  \<^verbatim>\<open>type\<close> (an array is an array of strings throughout), its description and its
  \<^verbatim>\<open>default\<close>, when one is declared.\<close>

datatype kind = String_type | Integer_type | Boolean_type | Array_of_string

record property =
  prop_name :: string
  prop_type :: kind
  prop_description :: string
  prop_default :: "jv option"

text \<open>\<^verbatim>\<open>Tool(name=..., description=..., inputSchema={...})\<close>. \<open>tool_required\<close> is the
  \<^verbatim>\<open>required\<close> list of the schema, empty when the schema has none.\<close>

record tool =
  tool_name :: string
  tool_description :: string
  tool_properties :: "property list"
  tool_required :: "string list"

definition param :: "string \<Rightarrow> kind \<Rightarrow> string \<Rightarrow> jv option \<Rightarrow> property" where
  "param n k d dflt =
     \<lparr> prop_name = n, prop_type = k, prop_description = d, prop_default = dflt \<rparr>"

definition list_tools :: "tool list" where
  "list_tools =
    [\<lparr> tool_name = ''jira_search_issues'',
       tool_description = ''Search Jira issues using JQL (Jira Query Language)'',
       tool_properties =
         [param ''jql'' String_type
            (''JQL query string (e.g., '' @ [CHR 0x27]
              @ ''project = MYPROJ AND status = Open'' @ [CHR 0x27] @ '')'') None,
          param ''max_results'' Integer_type
            ''Maximum number of results to return'' (Some (JInt 50)),
          param ''fields'' Array_of_string
            ''Specific fields to return (optional)'' None],
       tool_required = [''jql''] \<rparr>,
     \<lparr> tool_name = ''jira_get_issue'',
       tool_description = ''Get detailed information about a specific Jira issue'',
       tool_properties =
         [param ''issue_key'' String_type
            (''Issue key (e.g., '' @ [CHR 0x27] @ ''PROJ-123'' @ [CHR 0x27] @ '')'') None,
          param ''expand'' Array_of_string
            (''Additional data to expand (e.g., ['' @ [CHR 0x27] @ ''changelog'' @ [CHR 0x27]
              @ '', '' @ [CHR 0x27] @ ''comments'' @ [CHR 0x27] @ ''])'') None],
       tool_required = [''issue_key''] \<rparr>,
     \<lparr> tool_name = ''jira_create_issue'',
       tool_description = ''Create a new Jira issue'',
       tool_properties =
         [param ''project'' String_type
            (''Project key (e.g., '' @ [CHR 0x27] @ ''PROJ'' @ [CHR 0x27] @ '')'') None,
          param ''summary'' String_type ''Issue summary/title'' None,
          param ''description'' String_type ''Issue description'' None,
          param ''issue_type'' String_type
            (''Issue type (e.g., '' @ [CHR 0x27] @ ''Bug'' @ [CHR 0x27] @ '', ''
              @ [CHR 0x27] @ ''Story'' @ [CHR 0x27] @ '', ''
              @ [CHR 0x27] @ ''Task'' @ [CHR 0x27] @ '')'') (Some (JStr ''Task'')),
          param ''priority'' String_type
            (''Priority (e.g., '' @ [CHR 0x27] @ ''High'' @ [CHR 0x27] @ '', ''
              @ [CHR 0x27] @ ''Medium'' @ [CHR 0x27] @ '', ''
              @ [CHR 0x27] @ ''Low'' @ [CHR 0x27] @ '')'') None,
          param ''assignee'' String_type ''Assignee username or email'' None,
          param ''labels'' Array_of_string ''Issue labels'' None],
       tool_required = [''project'', ''summary'', ''issue_type''] \<rparr>,
     \<lparr> tool_name = ''jira_update_issue'',
       tool_description = ''Update an existing Jira issue'',
       tool_properties =
         [param ''issue_key'' String_type
            (''Issue key (e.g., '' @ [CHR 0x27] @ ''PROJ-123'' @ [CHR 0x27] @ '')'') None,
          param ''summary'' String_type ''New summary/title'' None,
          param ''description'' String_type ''New description'' None,
          param ''priority'' String_type ''New priority'' None,
          param ''assignee'' String_type ''New assignee username or email'' None,
          param ''labels'' Array_of_string ''New labels'' None],
       tool_required = [''issue_key''] \<rparr>,
     \<lparr> tool_name = ''jira_add_comment'',
       tool_description = ''Add a comment to a Jira issue'',
       tool_properties =
         [param ''issue_key'' String_type
            (''Issue key (e.g., '' @ [CHR 0x27] @ ''PROJ-123'' @ [CHR 0x27] @ '')'') None,
          param ''comment'' String_type ''Comment text (supports Jira markdown)'' None],
       tool_required = [''issue_key'', ''comment''] \<rparr>,
     \<lparr> tool_name = ''jira_transition_issue'',
       tool_description =
         ''Change the status of a Jira issue (e.g., move to In Progress, Done)'',
       tool_properties =
         [param ''issue_key'' String_type
            (''Issue key (e.g., '' @ [CHR 0x27] @ ''PROJ-123'' @ [CHR 0x27] @ '')'') None,
          param ''transition'' String_type
            (''Transition name or ID (e.g., '' @ [CHR 0x27] @ ''In Progress'' @ [CHR 0x27]
              @ '', '' @ [CHR 0x27] @ ''Done'' @ [CHR 0x27] @ '', ''
              @ [CHR 0x27] @ ''21'' @ [CHR 0x27] @ '')'') None,
          param ''comment'' String_type ''Optional comment when transitioning'' None],
       tool_required = [''issue_key'', ''transition''] \<rparr>,
     \<lparr> tool_name = ''jira_get_transitions'',
       tool_description = ''Get available transitions (status changes) for a Jira issue'',
       tool_properties =
         [param ''issue_key'' String_type
            (''Issue key (e.g., '' @ [CHR 0x27] @ ''PROJ-123'' @ [CHR 0x27] @ '')'') None],
       tool_required = [''issue_key''] \<rparr>,
     \<lparr> tool_name = ''jira_list_projects'',
       tool_description = ''List all accessible Jira projects'',
       tool_properties =
         [param ''include_archived'' Boolean_type
            ''Include archived projects'' (Some (JBool False))],
       tool_required = [] \<rparr>]"

text \<open>Looking a tool and a property up by name.\<close>

definition lookup_tool :: "string \<Rightarrow> tool option" where
  "lookup_tool n = find (\<lambda>t. tool_name t = n) list_tools"

definition lookup_property :: "tool \<Rightarrow> string \<Rightarrow> property option" where
  "lookup_property t n = find (\<lambda>p. prop_name p = n) (tool_properties t)"

text \<open>The invariant of a tool's parameters: a parameter that is in the \<^verbatim>\<open>required\<close> list
  declares no default, and no two parameters have the same name.\<close>

definition required_without_default :: "tool \<Rightarrow> bool" where
  "required_without_default t =
     list_all (\<lambda>p. if prop_name p \<in> set (tool_required t) then prop_default p = None else True)
       (tool_properties t)"

definition parameter_names_distinct :: "tool \<Rightarrow> bool" where
  "parameter_names_distinct t = distinct (map prop_name (tool_properties t))"

subsection \<open>Concrete inputs\<close>

text \<open>Two transition candidates, and one whose identifier is the empty string.\<close>

definition cand_in_progress :: transition where
  "cand_in_progress =
     \<lparr> t_id = ''21'', t_name = ''In Progress'', t_to_name = JStr ''In Progress'' \<rparr>"

definition cand_done :: transition where
  "cand_done = \<lparr> t_id = ''31'', t_name = ''Done'', t_to_name = JStr ''Done'' \<rparr>"

definition cand_empty_id :: transition where
  "cand_empty_id = \<lparr> t_id = [], t_name = ''Done'', t_to_name = JStr ''Done'' \<rparr>"

definition demo_issue :: issue where
  "demo_issue =
     \<lparr> i_key = ''PROJ-7'', i_summary = JStr ''Fix bug'', i_description = JStr [],
       i_status_name = JStr ''Open'', i_issuetype_name = JStr ''Bug'',
       i_assignee = None, i_reporter = Some (JStr ''Ada''), i_priority = None,
       i_labels = JList [], i_created = ''2024-01-01'', i_updated = ''2024-01-02'' \<rparr>"

definition demo_comment :: comment where
  "demo_comment =
     \<lparr> c_author_displayName = JStr ''Ada'', c_body = JStr ''Looks good'',
       c_created = ''2024-01-03'' \<rparr>"

text \<open>A client on which every operation returns.\<close>

definition demo_client :: client where
  "demo_client =
     \<lparr> jira_search_issues = (\<lambda>jql max_results fields. Inr []),
       jira_issue = (\<lambda>issue_key expand. Inr demo_issue),
       jira_comments = (\<lambda>issue. Inr [demo_comment]),
       jira_client_info = Inr ''https://jira.example.com'',
       jira_create_issue = (\<lambda>fields. Inr demo_issue),
       issue_update = (\<lambda>issue fields. Inr ()),
       jira_add_comment = (\<lambda>issue_key comment. Inr ()),
       jira_transitions = (\<lambda>issue_key. Inr [cand_in_progress, cand_done]),
       jira_transition_issue = (\<lambda>issue_key transition_id comment. Inr ()),
       jira_projects = Inr [] \<rparr>"



definition empty_id_client :: client where
  "empty_id_client = demo_client \<lparr> jira_transitions := (\<lambda>issue_key. Inr [cand_empty_id]) \<rparr>"

text \<open>An environment with the three variables set, and one with none of them.\<close>

definition cfg_set :: config where
  "cfg_set =
     \<lparr> env_JIRA_URL = Some ''https://jira.example.com'',
       env_JIRA_EMAIL = Some ''dev@example.com'',
       env_JIRA_API_TOKEN = Some ''secret'',
       JIRA = (\<lambda>server email token. Inr demo_client) \<rparr>"

definition cfg_unset :: config where
  "cfg_unset =
     \<lparr> env_JIRA_URL = None, env_JIRA_EMAIL = None, env_JIRA_API_TOKEN = None,
       JIRA = (\<lambda>server email token. Inr demo_client) \<rparr>"

text \<open>Raw argument maps.\<close>

definition no_arguments :: arguments where
  "no_arguments = Map.empty"

definition args_key_only :: arguments where
  "args_key_only = [''issue_key'' \<mapsto> JStr ''X-1'']"

definition args_clear_labels :: arguments where
  "args_clear_labels = [''issue_key'' \<mapsto> JStr ''X-1'', ''labels'' \<mapsto> JList []]"

definition args_expand_comments :: arguments where
  "args_expand_comments =
     [''issue_key'' \<mapsto> JStr ''X-1'', ''expand'' \<mapsto> JList [JStr ''changelog'', JStr ''comments'']]"

definition args_expand_changelog :: arguments where
  "args_expand_changelog =
     [''issue_key'' \<mapsto> JStr ''X-1'', ''expand'' \<mapsto> JList [JStr ''changelog'']]"

definition args_fix_bug :: arguments where
  "args_fix_bug =
     [''project'' \<mapsto> JStr ''PROJ'', ''summary'' \<mapsto> JStr ''Fix bug'',
      ''issue_type'' \<mapsto> JStr ''Bug'']"

definition args_no_issue_type :: arguments where
  "args_no_issue_type = [''project'' \<mapsto> JStr ''PROJ'', ''summary'' \<mapsto> JStr ''Fix bug'']"

definition args_no_summary :: arguments where
  "args_no_summary = [''project'' \<mapsto> JStr ''PROJ'', ''issue_type'' \<mapsto> JStr ''Bug'']"

definition args_transition_done :: arguments where
  "args_transition_done = [''issue_key'' \<mapsto> JStr ''X-1'', ''transition'' \<mapsto> JStr ''done'']"

definition args_transition_progress :: arguments where
  "args_transition_progress =
     [''issue_key'' \<mapsto> JStr ''X-1'', ''transition'' \<mapsto> JStr ''progress'']"

definition args_empty_optionals :: arguments where
  "args_empty_optionals =
     [''project'' \<mapsto> JStr ''PROJ'', ''summary'' \<mapsto> JStr ''Fix bug'',
      ''priority'' \<mapsto> JStr [], ''labels'' \<mapsto> JList []]"

section \<open>Basic facts\<close>

lemma try_eval_simps:
  "try_eval (Inl e) k = ([], Inl e)"
  "try_eval (Inr v) k = k v"
  by (simp_all add: try_eval_def)

lemma call_client_simps:
  "call_client ev (Inl e) k = ([ev], Inl e)"
  "call_client ev (Inr v) k = (ev # fst (k v), snd (k v))"
  by (simp_all add: call_client_def split: prod.splits)

lemma get_jira_client_cached:
  "get_jira_client cfg (Some jira) = (([], Inr jira), Some jira)"
  by (simp add: get_jira_client_def returns_def)

lemma get_jira_client_cfg_set:
  "get_jira_client cfg_set None =
     (([Connect ''https://jira.example.com'' ''dev@example.com'' ''secret''], Inr demo_client),
      Some demo_client)"
  by (simp add: get_jira_client_def cfg_set_def)

lemma get_jira_client_cfg_unset:
  "get_jira_client cfg_unset None = (([], Inl (ValueError missing_configuration)), None)"
  by (simp add: get_jira_client_def cfg_unset_def raises_def)

text \<open>An invocation in which the client was obtained, and one in which it was not.\<close>

lemma call_tool_with_client:
  assumes "get_jira_client cfg g = ((tr0, Inr jira), g')"
  shows "call_tool cfg g name arguments =
           \<lparr> returned = (case snd (dispatch jira name arguments) of
                            Inr result \<Rightarrow> result | Inl e \<Rightarrow> handle_exception e),
             calls = tr0 @ fst (dispatch jira name arguments),
             jira_client_after = g' \<rparr>"
  using assms by (simp add: call_tool_def try_body_def split: prod.splits)

lemma call_tool_without_client:
  assumes "get_jira_client cfg g = ((tr0, Inl e), g')"
  shows "call_tool cfg g name arguments =
           \<lparr> returned = handle_exception e, calls = tr0, jira_client_after = g' \<rparr>"
  using assms by (simp add: call_tool_def try_body_def)

lemma tool_names:
  "map tool_name list_tools =
     [''jira_search_issues'', ''jira_get_issue'', ''jira_create_issue'', ''jira_update_issue'',
      ''jira_add_comment'', ''jira_transition_issue'', ''jira_get_transitions'',
      ''jira_list_projects'']"
  by (simp add: list_tools_def)

lemma dispatch_unknown:
  assumes "name \<notin> set (map tool_name list_tools)"
  shows "dispatch jira name arguments =
           returns (text_result [Lit (cross_mark @ '' Unknown tool: '' @ name)])"
  using assms unfolding tool_names by (simp add: dispatch_def)

section \<open>The transition resolver\<close>



section \<open>Unknown tool names\<close>

text \<open>
  Claim C2, as the code has it. For every tool name that is not in the catalog of eight
  tools, the client handle is obtained before the name is examined (created from the
  environment when none is cached). When that succeeds, the call returns the unknown-tool
  failure carrying the name, and no operation of the client is called: the only recorded
  call is the construction, if there was one. When it fails, the outcome is that failure.
\<close>

theorem unknown_tool_after_client:
  assumes "name \<notin> set (map tool_name list_tools)"
  shows "(get_jira_client cfg g = ((tr0, Inr jira), g') \<longrightarrow>
            call_tool cfg g name arguments =
              \<lparr> returned = text_result [Lit (cross_mark @ '' Unknown tool: '' @ name)],
                calls = tr0, jira_client_after = g' \<rparr>)
       \<and> (get_jira_client cfg g = ((tr0, Inl e), g') \<longrightarrow>
            call_tool cfg g name arguments =
              \<lparr> returned = handle_exception e, calls = tr0, jira_client_after = g' \<rparr>)
       \<and> call_tool cfg (Some jira) name arguments =
              \<lparr> returned = text_result [Lit (cross_mark @ '' Unknown tool: '' @ name)],
                calls = [], jira_client_after = Some jira \<rparr>"
  using assms
  by (simp add: call_tool_with_client call_tool_without_client dispatch_unknown returns_def
        get_jira_client_cached)

text \<open>The three cases at the name \<^verbatim>\<open>jira_delete_issue\<close>: a client created on the way, a
  missing configuration, and a client that is already there.\<close>

theorem unknown_tool_after_client_witness:
  "''jira_delete_issue'' \<notin> set (map tool_name list_tools)
   \<and> call_tool cfg_set None ''jira_delete_issue'' no_arguments =
       \<lparr> returned = text_result [Lit (cross_mark @ '' Unknown tool: '' @ ''jira_delete_issue'')],
         calls = [Connect ''https://jira.example.com'' ''dev@example.com'' ''secret''],
         jira_client_after = Some demo_client \<rparr>
   \<and> call_tool cfg_unset None ''jira_delete_issue'' no_arguments =
       \<lparr> returned = text_result [Lit (cross_mark @ '' Error: '' @ missing_configuration)],
         calls = [], jira_client_after = None \<rparr>
   \<and> call_tool cfg_unset (Some demo_client) ''jira_delete_issue'' no_arguments =
       \<lparr> returned = text_result [Lit (cross_mark @ '' Unknown tool: '' @ ''jira_delete_issue'')],
         calls = [], jira_client_after = Some demo_client \<rparr>"
proof -
  have n: "''jira_delete_issue'' \<notin> set (map tool_name list_tools)"
    unfolding tool_names by simp
  from unknown_tool_after_client [OF n, where cfg = cfg_set and g = None and jira = demo_client
         and g' = "Some demo_client" and arguments = no_arguments
         and ?tr0.0 = "[Connect ''https://jira.example.com'' ''dev@example.com'' ''secret'']"]
       unknown_tool_after_client [OF n, where cfg = cfg_unset and g = None and ?tr0.0 = "[]"
         and g' = None and e = "ValueError missing_configuration" and arguments = no_arguments
         and jira = demo_client]
  show ?thesis
    using n by (simp add: get_jira_client_cfg_set get_jira_client_cfg_unset)
qed

text \<open>Without the proviso on the client the statement fails: with no client cached, an
  unknown name first constructs the client, and with the environment unset the outcome is
  the configuration error, not the unknown-tool failure.\<close>

theorem unknown_tool_counterexample:
  "''jira_delete_issue'' \<notin> set (map tool_name list_tools)
   \<and> calls (call_tool cfg_set None ''jira_delete_issue'' no_arguments) =
       [Connect ''https://jira.example.com'' ''dev@example.com'' ''secret'']
   \<and> returned (call_tool cfg_unset None ''jira_delete_issue'' no_arguments) =
       text_result [Lit (cross_mark @ '' Error: '' @ missing_configuration)]
   \<and> returned (call_tool cfg_unset None ''jira_delete_issue'' no_arguments) \<noteq>
       text_result [Lit (cross_mark @ '' Unknown tool: '' @ ''jira_delete_issue'')]"
proof -
  have n: "''jira_delete_issue'' \<notin> set (map tool_name list_tools)"
    unfolding tool_names by simp
  have a: "calls (call_tool cfg_set None ''jira_delete_issue'' no_arguments) =
       [Connect ''https://jira.example.com'' ''dev@example.com'' ''secret'']"
    by (simp add: call_tool_with_client [OF get_jira_client_cfg_set] dispatch_unknown [OF n]
          returns_def)
  have b: "returned (call_tool cfg_unset None ''jira_delete_issue'' no_arguments) =
       text_result [Lit (cross_mark @ '' Error: '' @ missing_configuration)]"
    by (simp add: call_tool_without_client [OF get_jira_client_cfg_unset])
  have c: "text_result [Lit (cross_mark @ '' Error: '' @ missing_configuration)] \<noteq>
       text_result [Lit (cross_mark @ '' Unknown tool: '' @ ''jira_delete_issue'')]"
    by (simp add: text_result_def cross_mark_def missing_configuration_def)
  from n a b c show ?thesis by simp
qed

section \<open>Partial update\<close>

lemma entry_keys:
  "set (map fst (case x of None \<Rightarrow> [] | Some v \<Rightarrow> [(k, f v)])) = (if x = None then {} else {k})"
  by (cases x) simp_all

lemma keys_generic:
  "k \<in> set (map fst
       ((case m a of None \<Rightarrow> [] | Some v \<Rightarrow> [(a, fa v)])
      @ (case m b of None \<Rightarrow> [] | Some v \<Rightarrow> [(b, fb v)])
      @ (case m c of None \<Rightarrow> [] | Some v \<Rightarrow> [(c, fc v)])
      @ (case m d of None \<Rightarrow> [] | Some v \<Rightarrow> [(d, fd v)])
      @ (case m e of None \<Rightarrow> [] | Some v \<Rightarrow> [(e, fe v)]))) \<longleftrightarrow>
   (k = a \<or> k = b \<or> k = c \<or> k = d \<or> k = e) \<and> m k \<noteq> None"
  by (cases "m a"; cases "m b"; cases "m c"; cases "m d"; cases "m e") auto

lemma update_fields_mem:
  "k \<in> set (map fst (update_fields arguments)) \<longleftrightarrow>
     (k = ''summary'' \<or> k = ''description'' \<or> k = ''priority'' \<or> k = ''assignee''
       \<or> k = ''labels'') \<and> arguments k \<noteq> None"
  unfolding update_fields_def by (rule keys_generic)

lemma update_fields_keys:
  "set (map fst (update_fields arguments)) =
     {''summary'', ''description'', ''priority'', ''assignee'', ''labels''} \<inter> dom arguments"
proof (rule set_eqI)
  fix k
  show "k \<in> set (map fst (update_fields arguments)) \<longleftrightarrow>
        k \<in> {''summary'', ''description'', ''priority'', ''assignee'', ''labels''} \<inter> dom arguments"
    by (simp only: update_fields_mem Int_iff insert_iff empty_iff domIff simp_thms)
qed

lemma update_fields_distinct: "distinct (map fst (update_fields arguments))"
  by (simp add: update_fields_def split: option.splits)

lemma update_fields_labels:
  "map_of (update_fields arguments) ''labels'' = arguments ''labels''"
  by (simp add: update_fields_def split: option.splits)

lemma branch_update_issue_sends:
  assumes "arguments ''issue_key'' = Some issue_key"
      and "jira_issue jira issue_key None = Inr issue"
  shows "fst (branch_update_issue jira arguments) =
           [GetIssue issue_key None, UpdateIssue (i_key issue) (update_fields arguments)]"
  using assms
  by (cases "issue_update jira issue (update_fields arguments)")
     (simp_all add: branch_update_issue_def subscript_def try_eval_simps call_client_simps
        returns_def)

text \<open>
  Claim C3. For every update call that reaches the client (the client is obtained, the issue
  key is given, the issue is fetched), the field map passed to \<^verbatim>\<open>issue.update\<close> has
  exactly those of the keys summary, description, priority, assignee and labels that are
  keys of the raw arguments, each once, and the labels entry is the caller's value. The raw
  arguments with an issue key and \<^verbatim>\<open>labels: []\<close> give the map with the one entry
  \<^verbatim>\<open>labels: []\<close>; the raw arguments with the issue key alone give the empty map.
\<close>

theorem update_sends_present_keys:
  assumes "get_jira_client cfg g = ((tr0, Inr jira), g')"
      and "arguments ''issue_key'' = Some issue_key"
      and "jira_issue jira issue_key None = Inr issue"
  shows "calls (call_tool cfg g ''jira_update_issue'' arguments) =
           tr0 @ [GetIssue issue_key None, UpdateIssue (i_key issue) (update_fields arguments)]
       \<and> set (map fst (update_fields arguments)) =
           {''summary'', ''description'', ''priority'', ''assignee'', ''labels''} \<inter> dom arguments
       \<and> distinct (map fst (update_fields arguments))
       \<and> map_of (update_fields arguments) ''labels'' = arguments ''labels''
       \<and> update_fields args_clear_labels = [(''labels'', JList [])]
       \<and> update_fields args_key_only = []"
proof -
  have d: "dispatch jira ''jira_update_issue'' arguments = branch_update_issue jira arguments"
    by (simp add: dispatch_def)
  have sent: "calls (call_tool cfg g ''jira_update_issue'' arguments) =
           tr0 @ [GetIssue issue_key None, UpdateIssue (i_key issue) (update_fields arguments)]"
    by (simp add: call_tool_with_client [OF assms(1)] d branch_update_issue_sends [where arguments = arguments, OF assms(2,3)])
  have e1: "update_fields args_clear_labels = [(''labels'', JList [])]"
    by (simp add: update_fields_def args_clear_labels_def)
  have e2: "update_fields args_key_only = []"
    by (simp add: update_fields_def args_key_only_def)
  show ?thesis
    by (intro conjI) (rule sent update_fields_keys update_fields_distinct update_fields_labels e1 e2)+
qed

text \<open>The two update calls of the claim, on a client created from the environment.\<close>

theorem update_sends_present_keys_witness:
  "calls (call_tool cfg_set None ''jira_update_issue'' args_clear_labels) =
     [Connect ''https://jira.example.com'' ''dev@example.com'' ''secret'',
      GetIssue (JStr ''X-1'') None, UpdateIssue ''PROJ-7'' [(''labels'', JList [])]]
   \<and> calls (call_tool cfg_set None ''jira_update_issue'' args_key_only) =
     [Connect ''https://jira.example.com'' ''dev@example.com'' ''secret'',
      GetIssue (JStr ''X-1'') None, UpdateIssue ''PROJ-7'' []]"
proof -
  have a: "args_clear_labels ''issue_key'' = Some (JStr ''X-1'')"
    by (simp add: args_clear_labels_def)
  have b: "args_key_only ''issue_key'' = Some (JStr ''X-1'')"
    by (simp add: args_key_only_def)
  have c: "jira_issue demo_client (JStr ''X-1'') None = Inr demo_issue"
    by (simp add: demo_client_def)
  from update_sends_present_keys [where arguments = args_clear_labels, OF get_jira_client_cfg_set a c]
       update_sends_present_keys [where arguments = args_key_only, OF get_jira_client_cfg_set b c]
  show ?thesis by (simp add: demo_issue_def)
qed

section \<open>The error boundary\<close>

text \<open>What a computation returned, when it returned.\<close>

lemma try_eval_returnsE:
  assumes "snd (try_eval r k) = Inr out"
  obtains v where "r = Inr v" and "snd (k v) = Inr out"
  using assms by (cases r) (simp_all add: try_eval_def)

lemma call_client_returnsE:
  assumes "snd (call_client ev r k) = Inr out"
  obtains v where "r = Inr v" and "snd (k v) = Inr out"
  using assms by (cases r) (simp_all add: call_client_def split: prod.splits)

lemma returns_returnsE:
  assumes "snd (returns v) = Inr out"
  obtains "out = v"
  using assms by (simp add: returns_def)





















section \<open>Missing required fields\<close>

lemma tool_cases:
  assumes "t \<in> set list_tools"
  shows "(tool_name t, tool_required t) \<in> set
     [(''jira_search_issues'', [''jql'']),
      (''jira_get_issue'', [''issue_key'']),
      (''jira_create_issue'', [''project'', ''summary'', ''issue_type'']),
      (''jira_update_issue'', [''issue_key'']),
      (''jira_add_comment'', [''issue_key'', ''comment'']),
      (''jira_transition_issue'', [''issue_key'', ''transition'']),
      (''jira_get_transitions'', [''issue_key'']),
      (''jira_list_projects'', [])]"
proof -
  have "map (\<lambda>t. (tool_name t, tool_required t)) list_tools =
     [(''jira_search_issues'', [''jql'']),
      (''jira_get_issue'', [''issue_key'']),
      (''jira_create_issue'', [''project'', ''summary'', ''issue_type'']),
      (''jira_update_issue'', [''issue_key'']),
      (''jira_add_comment'', [''issue_key'', ''comment'']),
      (''jira_transition_issue'', [''issue_key'', ''transition'']),
      (''jira_get_transitions'', [''issue_key'']),
      (''jira_list_projects'', [])]"
    by (simp add: list_tools_def)
  moreover from assms have "(tool_name t, tool_required t) \<in> set (map (\<lambda>t. (tool_name t, tool_required t)) list_tools)"
    by (simp only: set_map) (rule imageI)
  ultimately show ?thesis by (simp only:)
qed

lemma missing_first:
  assumes "arguments k = None"
  shows "try_eval (subscript arguments k) body = ([], Inl (KeyError k))"
  using assms by (simp add: subscript_def try_eval_def)

lemma missing_second:
  assumes "arguments k1 = Some v" and "arguments k2 = None"
  shows "try_eval (subscript arguments k1) (\<lambda>x. try_eval (subscript arguments k2) (body x)) =
           ([], Inl (KeyError k2))"
  using assms by (simp add: subscript_def try_eval_def)

lemma missing_both:
  assumes "arguments k1 = None \<or> arguments k2 = None"
  shows "\<exists>m. (m = k1 \<or> m = k2) \<and> arguments m = None \<and>
           try_eval (subscript arguments k1) (\<lambda>x. try_eval (subscript arguments k2) (body x)) =
           ([], Inl (KeyError m))"
proof (cases "arguments k1")
  case None
  then show ?thesis by (auto simp: missing_first)
next
  case (Some v)
  with assms have "arguments k2 = None" by simp
  with Some show ?thesis by (auto simp: missing_second)
qed


lemma missing_search:
  assumes "f \<in> set [''jql'']" and "arguments f = None"
  shows "\<exists>m. m \<in> set [''jql''] \<and> arguments m = None \<and>
           dispatch jira ''jira_search_issues'' arguments = ([], Inl (KeyError m))"
proof -
  from assms have k: "arguments ''jql'' = None" by simp
  then have "dispatch jira ''jira_search_issues'' arguments = ([], Inl (KeyError ''jql''))"
    by (simp add: dispatch_def branch_search_issues_def missing_first)
  with k show ?thesis by simp
qed

lemma missing_get:
  assumes "f \<in> set [''issue_key'']" and "arguments f = None"
  shows "\<exists>m. m \<in> set [''issue_key''] \<and> arguments m = None \<and>
           dispatch jira ''jira_get_issue'' arguments = ([], Inl (KeyError m))"
proof -
  from assms have k: "arguments ''issue_key'' = None" by simp
  then have "dispatch jira ''jira_get_issue'' arguments = ([], Inl (KeyError ''issue_key''))"
    by (simp add: dispatch_def branch_get_issue_def missing_first)
  with k show ?thesis by simp
qed

lemma missing_update:
  assumes "f \<in> set [''issue_key'']" and "arguments f = None"
  shows "\<exists>m. m \<in> set [''issue_key''] \<and> arguments m = None \<and>
           dispatch jira ''jira_update_issue'' arguments = ([], Inl (KeyError m))"
proof -
  from assms have k: "arguments ''issue_key'' = None" by simp
  then have "dispatch jira ''jira_update_issue'' arguments = ([], Inl (KeyError ''issue_key''))"
    by (simp add: dispatch_def branch_update_issue_def missing_first)
  with k show ?thesis by simp
qed

lemma missing_get_transitions:
  assumes "f \<in> set [''issue_key'']" and "arguments f = None"
  shows "\<exists>m. m \<in> set [''issue_key''] \<and> arguments m = None \<and>
           dispatch jira ''jira_get_transitions'' arguments = ([], Inl (KeyError m))"
proof -
  from assms have k: "arguments ''issue_key'' = None" by simp
  then have "dispatch jira ''jira_get_transitions'' arguments = ([], Inl (KeyError ''issue_key''))"
    by (simp add: dispatch_def branch_get_transitions_def missing_first)
  with k show ?thesis by simp
qed

lemma missing_create:
  assumes "f \<in> set [''project'', ''summary'', ''issue_type'']"
      and "f \<noteq> ''issue_type''" and "arguments f = None"
  shows "\<exists>m. m \<in> set [''project'', ''summary'', ''issue_type''] \<and> arguments m = None \<and>
           dispatch jira ''jira_create_issue'' arguments = ([], Inl (KeyError m))"
proof -
  from assms have "arguments ''project'' = None \<or> arguments ''summary'' = None"
    by (simp only: set_simps insert_iff empty_iff) (elim disjE; simp)
  then have "\<exists>m. (m = ''project'' \<or> m = ''summary'') \<and> arguments m = None \<and>
           branch_create_issue jira arguments = ([], Inl (KeyError m))"
    unfolding branch_create_issue_def by (rule missing_both)
  then obtain m where m: "m = ''project'' \<or> m = ''summary''" "arguments m = None"
    and b: "branch_create_issue jira arguments = ([], Inl (KeyError m))"
    by (elim exE conjE)
  have "dispatch jira ''jira_create_issue'' arguments = branch_create_issue jira arguments"
    by (simp add: dispatch_def)
  with b have d: "dispatch jira ''jira_create_issue'' arguments = ([], Inl (KeyError m))"
    by simp
  from m(1) have "m \<in> set [''project'', ''summary'', ''issue_type'']"
    by (elim disjE) simp_all
  with m(2) d show ?thesis by (intro exI conjI)
qed

lemma missing_add_comment:
  assumes "f \<in> set [''issue_key'', ''comment'']" and "arguments f = None"
  shows "\<exists>m. m \<in> set [''issue_key'', ''comment''] \<and> arguments m = None \<and>
           dispatch jira ''jira_add_comment'' arguments = ([], Inl (KeyError m))"
proof -
  from assms have "arguments ''issue_key'' = None \<or> arguments ''comment'' = None"
    by (simp only: set_simps insert_iff empty_iff) (elim disjE; simp)
  then have "\<exists>m. (m = ''issue_key'' \<or> m = ''comment'') \<and> arguments m = None \<and>
           branch_add_comment jira arguments = ([], Inl (KeyError m))"
    unfolding branch_add_comment_def by (rule missing_both)
  then obtain m where m: "m = ''issue_key'' \<or> m = ''comment''" "arguments m = None"
    and b: "branch_add_comment jira arguments = ([], Inl (KeyError m))"
    by (elim exE conjE)
  have "dispatch jira ''jira_add_comment'' arguments = branch_add_comment jira arguments"
    by (simp add: dispatch_def)
  with b have d: "dispatch jira ''jira_add_comment'' arguments = ([], Inl (KeyError m))"
    by simp
  from m(1) have "m \<in> set [''issue_key'', ''comment'']"
    by (elim disjE) simp_all
  with m(2) d show ?thesis by (intro exI conjI)
qed

lemma missing_transition:
  assumes "f \<in> set [''issue_key'', ''transition'']" and "arguments f = None"
  shows "\<exists>m. m \<in> set [''issue_key'', ''transition''] \<and> arguments m = None \<and>
           dispatch jira ''jira_transition_issue'' arguments = ([], Inl (KeyError m))"
proof -
  from assms have "arguments ''issue_key'' = None \<or> arguments ''transition'' = None"
    by (simp only: set_simps insert_iff empty_iff) (elim disjE; simp)
  then have "\<exists>m. (m = ''issue_key'' \<or> m = ''transition'') \<and> arguments m = None \<and>
           branch_transition_issue jira arguments = ([], Inl (KeyError m))"
    unfolding branch_transition_issue_def by (rule missing_both)
  then obtain m where m: "m = ''issue_key'' \<or> m = ''transition''" "arguments m = None"
    and b: "branch_transition_issue jira arguments = ([], Inl (KeyError m))"
    by (elim exE conjE)
  have "dispatch jira ''jira_transition_issue'' arguments = branch_transition_issue jira arguments"
    by (simp add: dispatch_def)
  with b have d: "dispatch jira ''jira_transition_issue'' arguments = ([], Inl (KeyError m))"
    by simp
  from m(1) have "m \<in> set [''issue_key'', ''transition'']"
    by (elim disjE) simp_all
  with m(2) d show ?thesis by (intro exI conjI)
qed

lemma dispatch_missing:
  assumes "(name, req) \<in> set
     [(''jira_search_issues'', [''jql'']),
      (''jira_get_issue'', [''issue_key'']),
      (''jira_create_issue'', [''project'', ''summary'', ''issue_type'']),
      (''jira_update_issue'', [''issue_key'']),
      (''jira_add_comment'', [''issue_key'', ''comment'']),
      (''jira_transition_issue'', [''issue_key'', ''transition'']),
      (''jira_get_transitions'', [''issue_key'']),
      (''jira_list_projects'', [])]"
    and "f \<in> set req"
    and "(name, f) \<noteq> (''jira_create_issue'', ''issue_type'')"
    and "arguments f = None"
  shows "\<exists>m. m \<in> set req \<and> arguments m = None \<and>
           dispatch jira name arguments = ([], Inl (KeyError m))"
proof -
  from assms(1) have
    "(name = ''jira_search_issues'' \<and> req = [''jql''])
   \<or> (name = ''jira_get_issue'' \<and> req = [''issue_key''])
   \<or> (name = ''jira_create_issue'' \<and> req = [''project'', ''summary'', ''issue_type''])
   \<or> (name = ''jira_update_issue'' \<and> req = [''issue_key''])
   \<or> (name = ''jira_add_comment'' \<and> req = [''issue_key'', ''comment''])
   \<or> (name = ''jira_transition_issue'' \<and> req = [''issue_key'', ''transition''])
   \<or> (name = ''jira_get_transitions'' \<and> req = [''issue_key''])
   \<or> (name = ''jira_list_projects'' \<and> req = [])"
    by (simp only: set_simps insert_iff empty_iff prod.inject simp_thms)
  then show ?thesis
  proof (elim disjE conjE)
    assume "name = ''jira_search_issues''" "req = [''jql'']"
    with assms(2,4) show ?thesis by (simp only: missing_search)
  next
    assume "name = ''jira_get_issue''" "req = [''issue_key'']"
    with assms(2,4) show ?thesis by (simp only: missing_get)
  next
    assume c: "name = ''jira_create_issue''" "req = [''project'', ''summary'', ''issue_type'']"
    with assms(3) have n: "f \<noteq> ''issue_type''" by simp
    from assms(2) have "f \<in> set [''project'', ''summary'', ''issue_type'']" unfolding c(2) .
    from missing_create [where f = f and arguments = arguments, OF this n assms(4)]
    show ?thesis unfolding c .
  next
    assume "name = ''jira_update_issue''" "req = [''issue_key'']"
    with assms(2,4) show ?thesis by (simp only: missing_update)
  next
    assume "name = ''jira_add_comment''" "req = [''issue_key'', ''comment'']"
    with assms(2,4) show ?thesis by (simp only: missing_add_comment)
  next
    assume "name = ''jira_transition_issue''" "req = [''issue_key'', ''transition'']"
    with assms(2,4) show ?thesis by (simp only: missing_transition)
  next
    assume "name = ''jira_get_transitions''" "req = [''issue_key'']"
    with assms(2,4) show ?thesis by (simp only: missing_get_transitions)
  next
    assume "name = ''jira_list_projects''" "req = []"
    with assms(2) show ?thesis by simp
  qed
qed

lemma get_jira_client_calls:
  assumes "get_jira_client cfg g = ((tr0, r), g')"
  shows "filter mutating tr0 = []"
  using assms
  by (auto simp: get_jira_client_def returns_def raises_def Let_def
      split: option.splits if_splits sum.splits)

text \<open>
  Claim C5, as the code has it. For every tool of the catalog and every field of its
  \<^verbatim>\<open>required\<close> list other than \<^verbatim>\<open>issue_type\<close> of the create tool: when the raw arguments
  lack the field, the invocation issues no mutating call. When the client handle was
  obtained, the invocation fails with the line "Error:" followed by the quoted name of a
  required field that is missing, and the branch calls the client not at all. When the
  client handle could not be obtained, the invocation fails with the failure of obtaining
  it. There is no separate validation outcome: a missing field is a \<^verbatim>\<open>KeyError\<close> that the
  catch-all clause reports.
\<close>

theorem missing_required_field:
  assumes "t \<in> set list_tools"
      and "f \<in> set (tool_required t)"
      and "(tool_name t, f) \<noteq> (''jira_create_issue'', ''issue_type'')"
      and "arguments f = None"
  shows "filter mutating (calls (call_tool cfg g (tool_name t) arguments)) = []
       \<and> (get_jira_client cfg g = ((tr0, Inr jira), g') \<longrightarrow>
            (\<exists>m. m \<in> set (tool_required t) \<and> arguments m = None \<and>
               returned (call_tool cfg g (tool_name t) arguments) =
                 text_result [Lit (cross_mark @ '' Error: '' @ [CHR 0x27] @ m @ [CHR 0x27])])
            \<and> calls (call_tool cfg g (tool_name t) arguments) = tr0)
       \<and> (get_jira_client cfg g = ((tr0, Inl e), g') \<longrightarrow>
            returned (call_tool cfg g (tool_name t) arguments) = handle_exception e)"
proof -
  have missing: "\<exists>m. m \<in> set (tool_required t) \<and> arguments m = None \<and>
           dispatch jira' (tool_name t) arguments = ([], Inl (KeyError m))" for jira'
    by (rule dispatch_missing [where f = f and arguments = arguments,
          OF tool_cases [OF assms(1)] assms(2,3,4)])
  obtain tr r g'' where c: "get_jira_client cfg g = ((tr, r), g'')"
    by (metis prod.exhaust)
  have quiet: "filter mutating (calls (call_tool cfg g (tool_name t) arguments)) = []"
  proof (cases r)
    case (Inl e)
    with c get_jira_client_calls [OF c] show ?thesis
      by (simp add: call_tool_without_client)
  next
    case (Inr jira')
    from missing [of jira'] obtain m where "dispatch jira' (tool_name t) arguments = ([], Inl (KeyError m))"
      by blast
    with Inr c get_jira_client_calls [OF c] show ?thesis
      by (simp add: call_tool_with_client)
  qed
  have named: "(\<exists>m. m \<in> set (tool_required t) \<and> arguments m = None \<and>
               returned (call_tool cfg g (tool_name t) arguments) =
                 text_result [Lit (cross_mark @ '' Error: '' @ [CHR 0x27] @ m @ [CHR 0x27])])
            \<and> calls (call_tool cfg g (tool_name t) arguments) = tr0"
    if ok: "get_jira_client cfg g = ((tr0, Inr jira), g')"
  proof -
    from missing [of jira] obtain m where m: "m \<in> set (tool_required t)" "arguments m = None"
      "dispatch jira (tool_name t) arguments = ([], Inl (KeyError m))"
      by blast
    from m(3) have "returned (call_tool cfg g (tool_name t) arguments) =
                 text_result [Lit (cross_mark @ '' Error: '' @ [CHR 0x27] @ m @ [CHR 0x27])]"
      and "calls (call_tool cfg g (tool_name t) arguments) = tr0"
      by (simp_all add: call_tool_with_client [OF ok])
    with m(1,2) show ?thesis by blast
  qed
  have failed: "returned (call_tool cfg g (tool_name t) arguments) = handle_exception e"
    if "get_jira_client cfg g = ((tr0, Inl e), g')"
    using that by (simp add: call_tool_without_client)
  from quiet named failed show ?thesis by blast
qed


lemma create_tool:
  "list_tools ! 2 \<in> set list_tools"
  "tool_name (list_tools ! 2) = ''jira_create_issue''"
  "tool_required (list_tools ! 2) = [''project'', ''summary'', ''issue_type'']"
  by (simp_all add: list_tools_def)

text \<open>Creating an issue without a summary, on a client created from the environment: the
  failure names the summary, and the construction of the client is the only call.\<close>

theorem missing_required_field_witness:
  "list_tools ! 2 \<in> set list_tools
   \<and> ''summary'' \<in> set (tool_required (list_tools ! 2))
   \<and> args_no_summary ''summary'' = None
   \<and> returned (call_tool cfg_set None ''jira_create_issue'' args_no_summary) =
       text_result [Lit (cross_mark @ '' Error: '' @ [CHR 0x27] @ ''summary'' @ [CHR 0x27])]
   \<and> calls (call_tool cfg_set None ''jira_create_issue'' args_no_summary) =
       [Connect ''https://jira.example.com'' ''dev@example.com'' ''secret'']"
proof -
  have f: "''summary'' \<in> set (tool_required (list_tools ! 2))"
    by (simp add: create_tool)
  have n: "(tool_name (list_tools ! 2), ''summary'') \<noteq> (''jira_create_issue'', ''issue_type'')"
    by simp
  have a: "args_no_summary ''summary'' = None"
    by (simp add: args_no_summary_def)
  have p: "args_no_summary ''project'' \<noteq> None" "args_no_summary ''issue_type'' \<noteq> None"
    by (simp_all add: args_no_summary_def)
  from missing_required_field [where t = "list_tools ! 2" and f = "''summary''" and arguments = args_no_summary
             and cfg = cfg_set and g = None and jira = demo_client and g' = "Some demo_client"
             and ?tr0.0 = "[Connect ''https://jira.example.com'' ''dev@example.com'' ''secret'']",
           OF create_tool(1) f n a]
  have "(\<exists>m. m \<in> set [''project'', ''summary'', ''issue_type''] \<and> args_no_summary m = None \<and>
               returned (call_tool cfg_set None ''jira_create_issue'' args_no_summary) =
                 text_result [Lit (cross_mark @ '' Error: '' @ [CHR 0x27] @ m @ [CHR 0x27])])
       \<and> calls (call_tool cfg_set None ''jira_create_issue'' args_no_summary) =
       [Connect ''https://jira.example.com'' ''dev@example.com'' ''secret'']"
    by (simp add: create_tool get_jira_client_cfg_set)
  then obtain m where m: "m \<in> set [''project'', ''summary'', ''issue_type'']"
      "args_no_summary m = None"
      "returned (call_tool cfg_set None ''jira_create_issue'' args_no_summary) =
                 text_result [Lit (cross_mark @ '' Error: '' @ [CHR 0x27] @ m @ [CHR 0x27])]"
    and c: "calls (call_tool cfg_set None ''jira_create_issue'' args_no_summary) =
       [Connect ''https://jira.example.com'' ''dev@example.com'' ''secret'']"
    by (elim exE conjE)
  from m(1) have "m = ''project'' \<or> m = ''summary'' \<or> m = ''issue_type''"
    by (simp only: set_simps insert_iff empty_iff simp_thms)
  with m(2) p have "m = ''summary''" by (elim disjE) simp_all
  with m(3) c create_tool(1) f a show ?thesis by simp
qed

text \<open>Without the two provisos the statement fails. The catalog lists \<^verbatim>\<open>issue_type\<close> as
  required for creating an issue, but the branch reads it with the default "Task": without
  it the issue is created. And with the environment unset, a search without its query fails
  with the configuration error, which does not name the query.\<close>

theorem missing_required_field_counterexample:
  "list_tools ! 2 \<in> set list_tools
   \<and> tool_name (list_tools ! 2) = ''jira_create_issue''
   \<and> ''issue_type'' \<in> set (tool_required (list_tools ! 2))
   \<and> args_no_issue_type ''issue_type'' = None
   \<and> call_tool cfg_unset (Some demo_client) ''jira_create_issue'' args_no_issue_type =
       \<lparr> returned = text_result
           [Lit (check_mark @ '' Issue created successfully!'' @ nl @ nl
                 @ ''Key: PROJ-7'' @ nl
                 @ ''URL: https://jira.example.com/browse/PROJ-7'' @ nl
                 @ ''Summary: ''),
            Format (JStr ''Fix bug'')],
         calls =
           [CreateIssue
              [(''project'', JObj [(''key'', JStr ''PROJ'')]),
               (''summary'', JStr ''Fix bug''),
               (''description'', JStr []),
               (''issuetype'', JObj [(''name'', JStr ''Task'')])],
            ClientInfo],
         jira_client_after = Some demo_client \<rparr>
   \<and> returned (call_tool cfg_unset None ''jira_search_issues'' no_arguments) =
       text_result [Lit (cross_mark @ '' Error: '' @ missing_configuration)]"
proof -
  have a: "args_no_issue_type ''issue_type'' = None"
    by (simp add: args_no_issue_type_def)
  have d: "dispatch demo_client ''jira_create_issue'' args_no_issue_type =
       ([CreateIssue
              [(''project'', JObj [(''key'', JStr ''PROJ'')]),
               (''summary'', JStr ''Fix bug''),
               (''description'', JStr []),
               (''issuetype'', JObj [(''name'', JStr ''Task'')])],
            ClientInfo],
        Inr (text_result
           [Lit (check_mark @ '' Issue created successfully!'' @ nl @ nl
                 @ ''Key: PROJ-7'' @ nl
                 @ ''URL: https://jira.example.com/browse/PROJ-7'' @ nl
                 @ ''Summary: ''),
            Format (JStr ''Fix bug'')]))"
    by (simp add: dispatch_def branch_create_issue_def subscript_def get_arg_def
          args_no_issue_type_def try_eval_simps call_client_simps create_issue_dict_def
          demo_client_def demo_issue_def returns_def)
  have c: "call_tool cfg_unset (Some demo_client) ''jira_create_issue'' args_no_issue_type =
       \<lparr> returned = text_result
           [Lit (check_mark @ '' Issue created successfully!'' @ nl @ nl
                 @ ''Key: PROJ-7'' @ nl
                 @ ''URL: https://jira.example.com/browse/PROJ-7'' @ nl
                 @ ''Summary: ''),
            Format (JStr ''Fix bug'')],
         calls =
           [CreateIssue
              [(''project'', JObj [(''key'', JStr ''PROJ'')]),
               (''summary'', JStr ''Fix bug''),
               (''description'', JStr []),
               (''issuetype'', JObj [(''name'', JStr ''Task'')])],
            ClientInfo],
         jira_client_after = Some demo_client \<rparr>"
    by (simp add: call_tool_with_client [OF get_jira_client_cached] d)
  have s: "returned (call_tool cfg_unset None ''jira_search_issues'' no_arguments) =
       text_result [Lit (cross_mark @ '' Error: '' @ missing_configuration)]"
    by (simp add: call_tool_without_client [OF get_jira_client_cfg_unset])
  from create_tool a c s show ?thesis by simp
qed

section \<open>The transition branch\<close>

text \<open>What the branch does on a string token: no match gives the not-found line with all
  candidate names and no further call; a match with a non-empty identifier is applied, and
  the confirmation names the matched transition.\<close>

lemma transition_branch_string_token:
  assumes "arguments ''issue_key'' = Some issue_key"
      and "arguments ''transition'' = Some (JStr token)"
      and "jira_transitions jira issue_key = Inr transitions"
  shows "(find_transition transitions token = None \<longrightarrow>
            branch_transition_issue jira arguments =
              ([Transitions issue_key], Inr (transition_not_found (JStr token) transitions)))
       \<and> (find_transition transitions token = Some (transition_id, transition_name)
            \<and> transition_id \<noteq> []
            \<and> jira_transition_issue jira issue_key transition_id
                 (get_arg arguments ''comment'' JNull) = Inr () \<longrightarrow>
            branch_transition_issue jira arguments =
              ([Transitions issue_key,
                TransitionIssue issue_key transition_id (get_arg arguments ''comment'' JNull)],
               Inr (text_result
                 [Lit (check_mark @ '' Issue ''), Format issue_key,
                  Lit ('' transitioned to '' @ [CHR 0x27] @ transition_name @ [CHR 0x27])])))"
  using assms
  by (simp add: branch_transition_issue_def subscript_def try_eval_simps call_client_simps
        match_transition_def returns_def Let_def)

text \<open>The token "progress" on the candidates "In Progress" and "Done": the not-found line
  lists both names, and fetching the transitions is the only call.\<close>

lemma transition_progress_not_found:
  "call_tool cfg_unset (Some demo_client) ''jira_transition_issue'' args_transition_progress =
     \<lparr> returned = text_result
         [Lit (cross_mark @ '' Transition '' @ [CHR 0x27]), Format (JStr ''progress''),
          Lit ([CHR 0x27] @ '' not found.'' @ nl @ nl
               @ ''Available transitions: In Progress, Done'')],
       calls = [Transitions (JStr ''X-1'')],
       jira_client_after = Some demo_client \<rparr>"
proof -
  have a: "args_transition_progress ''issue_key'' = Some (JStr ''X-1'')"
          "args_transition_progress ''transition'' = Some (JStr ''progress'')"
    by (simp_all add: args_transition_progress_def)
  have t: "jira_transitions demo_client (JStr ''X-1'') = Inr [cand_in_progress, cand_done]"
    by (simp add: demo_client_def)
  have f: "find_transition [cand_in_progress, cand_done] ''progress'' = None"
    by (simp add: cand_in_progress_def cand_done_def lower_def)
  have n: "transition_not_found (JStr ''progress'') [cand_in_progress, cand_done] =
       text_result
         [Lit (cross_mark @ '' Transition '' @ [CHR 0x27]), Format (JStr ''progress''),
          Lit ([CHR 0x27] @ '' not found.'' @ nl @ nl
               @ ''Available transitions: In Progress, Done'')]"
    by (simp add: transition_not_found_def cand_in_progress_def cand_done_def)
  from transition_branch_string_token [where arguments = args_transition_progress, OF a t] f
  have "branch_transition_issue demo_client args_transition_progress =
          ([Transitions (JStr ''X-1'')],
           Inr (transition_not_found (JStr ''progress'') [cand_in_progress, cand_done]))"
    by simp
  then show ?thesis
    by (simp add: call_tool_with_client [OF get_jira_client_cached] dispatch_def n)
qed

text \<open>
  Claim C6 at a candidate whose identifier is the empty string. The token "done" matches
  the candidate named "Done", yet \<^verbatim>\<open>if not transition_id\<close> takes the empty identifier for
  "no match": the invocation answers that the transition was not found, lists "Done" as
  available, and does not call \<^verbatim>\<open>transition_issue\<close>.
\<close>

theorem transition_empty_id_reported_not_found:
  "find_transition [cand_empty_id] ''done'' = Some ([], ''Done'')
   \<and> call_tool cfg_unset (Some empty_id_client) ''jira_transition_issue'' args_transition_done =
       \<lparr> returned = text_result
           [Lit (cross_mark @ '' Transition '' @ [CHR 0x27]), Format (JStr ''done''),
            Lit ([CHR 0x27] @ '' not found.'' @ nl @ nl @ ''Available transitions: Done'')],
         calls = [Transitions (JStr ''X-1'')],
         jira_client_after = Some empty_id_client \<rparr>"
proof -
  have f: "find_transition [cand_empty_id] ''done'' = Some ([], ''Done'')"
    by (simp add: cand_empty_id_def lower_def)
  have d: "dispatch empty_id_client ''jira_transition_issue'' args_transition_done =
       ([Transitions (JStr ''X-1'')],
        Inr (text_result
           [Lit (cross_mark @ '' Transition '' @ [CHR 0x27]), Format (JStr ''done''),
            Lit ([CHR 0x27] @ '' not found.'' @ nl @ nl @ ''Available transitions: Done'')]))"
    by (simp add: dispatch_def branch_transition_issue_def subscript_def get_arg_def
          args_transition_done_def try_eval_simps call_client_simps match_transition_def f
          empty_id_client_def demo_client_def returns_def transition_not_found_def)
       (simp add: cand_empty_id_def)
  have c: "call_tool cfg_unset (Some empty_id_client) ''jira_transition_issue'' args_transition_done =
       \<lparr> returned = text_result
           [Lit (cross_mark @ '' Transition '' @ [CHR 0x27]), Format (JStr ''done''),
            Lit ([CHR 0x27] @ '' not found.'' @ nl @ nl @ ''Available transitions: Done'')],
         calls = [Transitions (JStr ''X-1'')],
         jira_client_after = Some empty_id_client \<rparr>"
    by (simp add: call_tool_with_client [OF get_jira_client_cached] d)
  from f c show ?thesis by simp
qed

section \<open>Creating an issue\<close>

lemma branch_create_issue_calls:
  assumes "arguments ''project'' = Some project"
      and "arguments ''summary'' = Some summary"
  shows "\<exists>rest. fst (branch_create_issue jira arguments) =
           CreateIssue (create_issue_dict project summary
             (get_arg arguments ''description'' (JStr []))
             (get_arg arguments ''issue_type'' (JStr ''Task''))
             (get_arg arguments ''priority'' JNull)
             (get_arg arguments ''assignee'' JNull)
             (get_arg arguments ''labels'' (JList []))) # rest"
  using assms
  by (cases "jira_create_issue jira (create_issue_dict project summary
             (get_arg arguments ''description'' (JStr []))
             (get_arg arguments ''issue_type'' (JStr ''Task''))
             (get_arg arguments ''priority'' JNull)
             (get_arg arguments ''assignee'' JNull)
             (get_arg arguments ''labels'' (JList [])))")
     (simp_all add: branch_create_issue_def subscript_def try_eval_simps call_client_simps Let_def)

lemma create_issue_dict_description:
  "map_of (create_issue_dict project summary description issue_type priority assignee labels)
     ''description'' = Some description"
  by (simp add: create_issue_dict_def)

lemma create_issue_dict_keys:
  "map fst (create_issue_dict project summary description issue_type priority assignee labels) =
     [''project'', ''summary'', ''description'', ''issuetype'']
     @ (if truthy priority then [''priority''] else [])
     @ (if truthy assignee then [''assignee''] else [])
     @ (if truthy labels then [''labels''] else [])"
  by (simp add: create_issue_dict_def)

lemma create_minimal_dict:
  "create_issue_dict project summary description issue_type JNull JNull (JList []) =
     [(''project'', JObj [(''key'', project)]), (''summary'', summary),
      (''description'', description), (''issuetype'', JObj [(''name'', issue_type)])]"
  by (simp add: create_issue_dict_def)

text \<open>
  Claim C7. Creating an issue with project "PROJ", title "Fix bug", type "Bug" and none of
  description, priority, assignee and labels: when the client is obtained and accepts the
  issue, the call succeeds; its text holds the key of the created issue and the browse
  reference built from the client's address and that key, and the field map passed to the
  client has the four entries project, summary, description and issuetype, so no priority,
  assignee or labels key.
\<close>

theorem create_minimal_issue:
  assumes "get_jira_client cfg g = ((tr0, Inr jira), g')"
      and "arguments ''project'' = Some (JStr ''PROJ'')"
      and "arguments ''summary'' = Some (JStr ''Fix bug'')"
      and "arguments ''issue_type'' = Some (JStr ''Bug'')"
      and "arguments ''description'' = None"
      and "arguments ''priority'' = None"
      and "arguments ''assignee'' = None"
      and "arguments ''labels'' = None"
      and "jira_create_issue jira
             [(''project'', JObj [(''key'', JStr ''PROJ'')]), (''summary'', JStr ''Fix bug''),
              (''description'', JStr []), (''issuetype'', JObj [(''name'', JStr ''Bug'')])]
           = Inr new_issue"
      and "jira_client_info jira = Inr client_info"
  shows "call_tool cfg g ''jira_create_issue'' arguments =
           \<lparr> returned = text_result
               [Lit (check_mark @ '' Issue created successfully!'' @ nl @ nl
                     @ ''Key: '' @ i_key new_issue @ nl
                     @ ''URL: '' @ client_info @ ''/browse/'' @ i_key new_issue @ nl
                     @ ''Summary: ''),
                Format (JStr ''Fix bug'')],
             calls = tr0 @
               [CreateIssue
                  [(''project'', JObj [(''key'', JStr ''PROJ'')]), (''summary'', JStr ''Fix bug''),
                   (''description'', JStr []), (''issuetype'', JObj [(''name'', JStr ''Bug'')])],
                ClientInfo],
             jira_client_after = g' \<rparr>"
proof -
  have d: "dispatch jira ''jira_create_issue'' arguments = branch_create_issue jira arguments"
    by (simp add: dispatch_def)
  have b: "branch_create_issue jira arguments =
      ([CreateIssue
                  [(''project'', JObj [(''key'', JStr ''PROJ'')]), (''summary'', JStr ''Fix bug''),
                   (''description'', JStr []), (''issuetype'', JObj [(''name'', JStr ''Bug'')])],
                ClientInfo],
       Inr (text_result
               [Lit (check_mark @ '' Issue created successfully!'' @ nl @ nl
                     @ ''Key: '' @ i_key new_issue @ nl
                     @ ''URL: '' @ client_info @ ''/browse/'' @ i_key new_issue @ nl
                     @ ''Summary: ''),
                Format (JStr ''Fix bug'')]))"
    using assms(2-10)
    by (simp add: branch_create_issue_def subscript_def get_arg_def try_eval_simps
          call_client_simps Let_def create_minimal_dict returns_def)
  show ?thesis
    by (simp add: call_tool_with_client [OF assms(1)] d b)
qed


text \<open>The same call on a client created from the environment, which answers with the
  issue PROJ-7.\<close>

theorem create_minimal_issue_witness:
  "call_tool cfg_set None ''jira_create_issue'' args_fix_bug =
           \<lparr> returned = text_result
               [Lit (check_mark @ '' Issue created successfully!'' @ nl @ nl
                     @ ''Key: PROJ-7'' @ nl
                     @ ''URL: https://jira.example.com/browse/PROJ-7'' @ nl
                     @ ''Summary: ''),
                Format (JStr ''Fix bug'')],
             calls =
               [Connect ''https://jira.example.com'' ''dev@example.com'' ''secret'',
                CreateIssue
                  [(''project'', JObj [(''key'', JStr ''PROJ'')]), (''summary'', JStr ''Fix bug''),
                   (''description'', JStr []), (''issuetype'', JObj [(''name'', JStr ''Bug'')])],
                ClientInfo],
             jira_client_after = Some demo_client \<rparr>"
proof -
  have a: "args_fix_bug ''project'' = Some (JStr ''PROJ'')"
       "args_fix_bug ''summary'' = Some (JStr ''Fix bug'')"
       "args_fix_bug ''issue_type'' = Some (JStr ''Bug'')"
       "args_fix_bug ''description'' = None"
       "args_fix_bug ''priority'' = None"
       "args_fix_bug ''assignee'' = None"
       "args_fix_bug ''labels'' = None"
    by (simp_all add: args_fix_bug_def)
  have c: "jira_create_issue demo_client
             [(''project'', JObj [(''key'', JStr ''PROJ'')]), (''summary'', JStr ''Fix bug''),
              (''description'', JStr []), (''issuetype'', JObj [(''name'', JStr ''Bug'')])]
           = Inr demo_issue"
       "jira_client_info demo_client = Inr ''https://jira.example.com''"
    by (simp_all add: demo_client_def)
  from create_minimal_issue [where arguments = args_fix_bug, OF get_jira_client_cfg_set a c]
  show ?thesis by (simp add: demo_issue_def)
qed

text \<open>
  Claim C10. For every create call that reaches the client (the client is obtained, project
  and summary are given), the field map passed to \<^verbatim>\<open>create_issue\<close> has a description entry:
  the caller's description, or the empty string when the argument is absent. The keys
  priority, assignee and labels are in the map exactly when the argument is present and
  truthy, so they are left out when it is absent or empty.
\<close>

theorem create_always_sends_description:
  assumes "get_jira_client cfg g = ((tr0, Inr jira), g')"
      and "arguments ''project'' = Some project"
      and "arguments ''summary'' = Some summary"
  shows "\<exists>fields rest.
           calls (call_tool cfg g ''jira_create_issue'' arguments) = tr0 @ CreateIssue fields # rest
         \<and> map_of fields ''description'' =
             Some (case arguments ''description'' of None \<Rightarrow> JStr [] | Some d \<Rightarrow> d)
         \<and> (''priority'' \<in> set (map fst fields)) =
             (case arguments ''priority'' of None \<Rightarrow> False | Some v \<Rightarrow> truthy v)
         \<and> (''assignee'' \<in> set (map fst fields)) =
             (case arguments ''assignee'' of None \<Rightarrow> False | Some v \<Rightarrow> truthy v)
         \<and> (''labels'' \<in> set (map fst fields)) =
             (case arguments ''labels'' of None \<Rightarrow> False | Some v \<Rightarrow> truthy v)"
proof -
  let ?fields = "create_issue_dict project summary
             (get_arg arguments ''description'' (JStr []))
             (get_arg arguments ''issue_type'' (JStr ''Task''))
             (get_arg arguments ''priority'' JNull)
             (get_arg arguments ''assignee'' JNull)
             (get_arg arguments ''labels'' (JList []))"
  have d: "dispatch jira ''jira_create_issue'' arguments = branch_create_issue jira arguments"
    by (simp add: dispatch_def)
  from branch_create_issue_calls [where arguments = arguments, OF assms(2,3)]
  obtain rest where "fst (branch_create_issue jira arguments) = CreateIssue ?fields # rest"
    by blast
  then have c: "calls (call_tool cfg g ''jira_create_issue'' arguments) =
                  tr0 @ CreateIssue ?fields # rest"
    by (simp add: call_tool_with_client [OF assms(1)] d)
  have desc: "map_of ?fields ''description'' =
             Some (case arguments ''description'' of None \<Rightarrow> JStr [] | Some d \<Rightarrow> d)"
    by (simp add: create_issue_dict_description get_arg_def)
  have p: "(''priority'' \<in> set (map fst ?fields)) =
             (case arguments ''priority'' of None \<Rightarrow> False | Some v \<Rightarrow> truthy v)"
    by (simp add: create_issue_dict_keys get_arg_def split: option.splits)
  have a: "(''assignee'' \<in> set (map fst ?fields)) =
             (case arguments ''assignee'' of None \<Rightarrow> False | Some v \<Rightarrow> truthy v)"
    by (simp add: create_issue_dict_keys get_arg_def split: option.splits)
  have l: "(''labels'' \<in> set (map fst ?fields)) =
             (case arguments ''labels'' of None \<Rightarrow> False | Some v \<Rightarrow> truthy v)"
    by (simp add: create_issue_dict_keys get_arg_def split: option.splits)
  from c desc p a l show ?thesis by blast
qed

text \<open>A create call with an empty priority, an empty list of labels, no assignee and no
  description.\<close>

theorem create_always_sends_description_witness:
  "\<exists>fields rest.
     calls (call_tool cfg_set None ''jira_create_issue'' args_empty_optionals) =
       Connect ''https://jira.example.com'' ''dev@example.com'' ''secret''
         # CreateIssue fields # rest
     \<and> map_of fields ''description'' = Some (JStr [])
     \<and> ''priority'' \<notin> set (map fst fields)
     \<and> ''assignee'' \<notin> set (map fst fields)
     \<and> ''labels'' \<notin> set (map fst fields)"
proof -
  have a: "args_empty_optionals ''project'' = Some (JStr ''PROJ'')"
       "args_empty_optionals ''summary'' = Some (JStr ''Fix bug'')"
    by (simp_all add: args_empty_optionals_def)
  have v: "args_empty_optionals ''description'' = None"
       "args_empty_optionals ''priority'' = Some (JStr [])"
       "args_empty_optionals ''assignee'' = None"
       "args_empty_optionals ''labels'' = Some (JList [])"
    by (simp_all add: args_empty_optionals_def)
  from create_always_sends_description [where arguments = args_empty_optionals, OF get_jira_client_cfg_set a]
  show ?thesis by (simp add: v)
qed

section \<open>Fetching an issue\<close>

lemma get_issue_data_keys:
  "map fst (get_issue_data i u) =
     [''key'', ''summary'', ''description'', ''status'', ''issue_type'', ''assignee'',
      ''reporter'', ''priority'', ''labels'', ''created'', ''updated'', ''url'']"
  by (simp add: get_issue_data_def)

lemma get_issue_data_no_comments: "''comments'' \<notin> set (map fst (get_issue_data i u))"
  unfolding get_issue_data_keys by simp

lemma branch_get_issue_returns:
  assumes "snd (branch_get_issue jira arguments) = Inr out"
  shows "\<exists>issue_data.
           out = text_result [JsonDumps (JObj issue_data)]
         \<and> (''comments'' \<in> set (map fst issue_data)) =
             (truthy (get_arg arguments ''expand'' JNull)
              \<and> comments_in (get_arg arguments ''expand'' JNull) = Inr True)"
proof -
  let ?expand = "get_arg arguments ''expand'' JNull"
  from assms obtain issue client_info where tail:
    "snd (if \<not> truthy ?expand
          then returns (text_result [JsonDumps (JObj (get_issue_data issue client_info))])
          else try_eval (comments_in ?expand) (\<lambda>wanted.
            if wanted
            then call_client (Comments (i_key issue)) (jira_comments jira issue) (\<lambda>comments.
                   returns (text_result [JsonDumps (JObj
                     (get_issue_data issue client_info
                      @ [(''comments'', JList (map comment_data comments))]))]))
            else returns (text_result
                   [JsonDumps (JObj (get_issue_data issue client_info))]))) = Inr out"
    unfolding branch_get_issue_def Let_def
    by (elim try_eval_returnsE call_client_returnsE)
  show ?thesis
  proof (cases "truthy ?expand")
    case False
    with tail have "out = text_result [JsonDumps (JObj (get_issue_data issue client_info))]"
      by (simp add: returns_def)
    with False get_issue_data_no_comments [of issue client_info] show ?thesis
      by (intro exI [of _ "get_issue_data issue client_info"]) simp
  next
    case True
    with tail obtain wanted where w: "comments_in ?expand = Inr wanted"
      and body: "snd (if wanted
            then call_client (Comments (i_key issue)) (jira_comments jira issue) (\<lambda>comments.
                   returns (text_result [JsonDumps (JObj
                     (get_issue_data issue client_info
                      @ [(''comments'', JList (map comment_data comments))]))]))
            else returns (text_result
                   [JsonDumps (JObj (get_issue_data issue client_info))])) = Inr out"
      by (simp only: if_False not_True_eq_False simp_thms) (elim try_eval_returnsE)
    show ?thesis
    proof (cases wanted)
      case False
      with body have "out = text_result [JsonDumps (JObj (get_issue_data issue client_info))]"
        by (simp add: returns_def)
      with False w True get_issue_data_no_comments [of issue client_info] show ?thesis
        by (intro exI [of _ "get_issue_data issue client_info"]) simp
    next
      case wanted: True
      with body obtain comments where
        "out = text_result [JsonDumps (JObj
                     (get_issue_data issue client_info
                      @ [(''comments'', JList (map comment_data comments))]))]"
        by (simp only: if_True) (elim call_client_returnsE returns_returnsE)
      with wanted w True show ?thesis
        by (intro exI [of _ "get_issue_data issue client_info
                      @ [(''comments'', JList (map comment_data comments))]"]) simp
    qed
  qed
qed

lemma comments_in_list:
  "comments_in (JList xs) = Inr (JStr ''comments'' \<in> set xs)"
  by (simp add: comments_in_def)

lemma failure_is_not_a_record:
  "handle_exception e \<noteq> text_result [JsonDumps v]"
  by (cases e) (simp_all add: text_result_def)

text \<open>
  Claim C8. For every get call in which \<^verbatim>\<open>expand\<close> is absent or a list, and which returns an
  issue record: the record has a comments key if and only if \<^verbatim>\<open>expand\<close> is given and
  "comments" is one of its items.
\<close>

theorem comments_only_when_expanded:
  assumes "get_jira_client cfg g = ((tr0, Inr jira), g')"
      and "arguments ''expand'' = None \<or> arguments ''expand'' = Some (JList xs)"
      and "returned (call_tool cfg g ''jira_get_issue'' arguments) =
             text_result [JsonDumps (JObj issue_data)]"
  shows "(''comments'' \<in> set (map fst issue_data)) =
           (arguments ''expand'' = Some (JList xs) \<and> JStr ''comments'' \<in> set xs)"
proof -
  have d: "dispatch jira ''jira_get_issue'' arguments = branch_get_issue jira arguments"
    by (simp add: dispatch_def)
  from assms(3) have r: "(case snd (branch_get_issue jira arguments) of
            Inr result \<Rightarrow> result | Inl e \<Rightarrow> handle_exception e) =
          text_result [JsonDumps (JObj issue_data)]"
    by (simp add: call_tool_with_client [OF assms(1)] d)
  then obtain out where out: "snd (branch_get_issue jira arguments) = Inr out"
    by (cases "snd (branch_get_issue jira arguments)") (simp_all add: failure_is_not_a_record)
  with r have "out = text_result [JsonDumps (JObj issue_data)]" by simp
  with branch_get_issue_returns [OF out]
  have k: "(''comments'' \<in> set (map fst issue_data)) =
             (truthy (get_arg arguments ''expand'' JNull)
              \<and> comments_in (get_arg arguments ''expand'' JNull) = Inr True)"
    by (simp add: text_result_def)
  from assms(2) show ?thesis
  proof
    assume "arguments ''expand'' = None"
    with k show ?thesis by (simp add: get_arg_def)
  next
    assume "arguments ''expand'' = Some (JList xs)"
    with k show ?thesis by (auto simp: get_arg_def comments_in_list)
  qed
qed

lemma get_with_comments:
  "returned (call_tool cfg_unset (Some demo_client) ''jira_get_issue'' args_expand_comments) =
     text_result [JsonDumps (JObj
       (get_issue_data demo_issue ''https://jira.example.com''
        @ [(''comments'', JList [comment_data demo_comment])]))]"
  by (simp add: call_tool_with_client [OF get_jira_client_cached] dispatch_def
        branch_get_issue_def subscript_def get_arg_def args_expand_comments_def
        join_expand_def comments_in_def try_eval_simps call_client_simps returns_def
        demo_client_def)

lemma get_without_comments:
  "returned (call_tool cfg_unset (Some demo_client) ''jira_get_issue'' args_expand_changelog) =
     text_result [JsonDumps (JObj (get_issue_data demo_issue ''https://jira.example.com''))]"
  by (simp add: call_tool_with_client [OF get_jira_client_cached] dispatch_def
        branch_get_issue_def subscript_def get_arg_def args_expand_changelog_def
        join_expand_def comments_in_def try_eval_simps call_client_simps returns_def
        demo_client_def)

lemma get_without_expand:
  "returned (call_tool cfg_unset (Some demo_client) ''jira_get_issue'' args_key_only) =
     text_result [JsonDumps (JObj (get_issue_data demo_issue ''https://jira.example.com''))]"
  by (simp add: call_tool_with_client [OF get_jira_client_cached] dispatch_def
        branch_get_issue_def subscript_def get_arg_def args_key_only_def
        join_expand_def comments_in_def try_eval_simps call_client_simps returns_def
        demo_client_def)

text \<open>Three get calls: \<^verbatim>\<open>expand\<close> naming the comments, \<^verbatim>\<open>expand\<close> naming only the
  changelog, and no \<^verbatim>\<open>expand\<close>.\<close>

theorem comments_only_when_expanded_witness:
  "returned (call_tool cfg_unset (Some demo_client) ''jira_get_issue'' args_expand_comments) =
     text_result [JsonDumps (JObj
       (get_issue_data demo_issue ''https://jira.example.com''
        @ [(''comments'', JList [comment_data demo_comment])]))]
   \<and> ''comments'' \<in> set (map fst (get_issue_data demo_issue ''https://jira.example.com''
        @ [(''comments'', JList [comment_data demo_comment])]))
   \<and> returned (call_tool cfg_unset (Some demo_client) ''jira_get_issue'' args_expand_changelog) =
     text_result [JsonDumps (JObj (get_issue_data demo_issue ''https://jira.example.com''))]
   \<and> returned (call_tool cfg_unset (Some demo_client) ''jira_get_issue'' args_key_only) =
     text_result [JsonDumps (JObj (get_issue_data demo_issue ''https://jira.example.com''))]
   \<and> ''comments'' \<notin> set (map fst (get_issue_data demo_issue ''https://jira.example.com''))"
proof -
  have e1: "args_expand_comments ''expand'' = None
          \<or> args_expand_comments ''expand'' = Some (JList [JStr ''changelog'', JStr ''comments''])"
    by (simp add: args_expand_comments_def)
  have e2: "args_expand_changelog ''expand'' = None
          \<or> args_expand_changelog ''expand'' = Some (JList [JStr ''changelog''])"
    by (simp add: args_expand_changelog_def)
  have e3: "args_key_only ''expand'' = None \<or> args_key_only ''expand'' = Some (JList [])"
    by (simp add: args_key_only_def)
  have v: "args_expand_comments ''expand'' = Some (JList [JStr ''changelog'', JStr ''comments''])"
       "args_expand_changelog ''expand'' = Some (JList [JStr ''changelog''])"
       "args_key_only ''expand'' = None"
    by (simp_all add: args_expand_comments_def args_expand_changelog_def args_key_only_def)
  from comments_only_when_expanded [where arguments = args_expand_comments, OF get_jira_client_cached e1 get_with_comments]
       comments_only_when_expanded [where arguments = args_expand_changelog, OF get_jira_client_cached e2 get_without_comments]
       comments_only_when_expanded [where arguments = args_key_only, OF get_jira_client_cached e3 get_without_expand]
  show ?thesis
    by (simp add: get_with_comments get_without_comments get_without_expand v)
qed

section \<open>The catalog\<close>

text \<open>Parameter names are distinct in every tool, and the create tool is the only one in
  which a required parameter declares a default.\<close>

lemma create_tool_lookup: "lookup_tool ''jira_create_issue'' = Some (list_tools ! 2)"
  by (simp add: lookup_tool_def list_tools_def)

lemma parameter_names_distinct_all: "list_all parameter_names_distinct list_tools"
  by (simp add: list_tools_def parameter_names_distinct_def param_def)

lemma only_create_breaks_the_invariant:
  "filter (\<lambda>t. \<not> required_without_default t) list_tools = [list_tools ! 2]"
  by (simp add: list_tools_def required_without_default_def param_def)

text \<open>
  Claim C9 at the create tool. Its \<^verbatim>\<open>required\<close> list names \<^verbatim>\<open>issue_type\<close>, and the property
  \<^verbatim>\<open>issue_type\<close> declares the default "Task": a required parameter with a default.
\<close>

theorem issue_type_required_with_default:
  "lookup_tool ''jira_create_issue'' = Some (list_tools ! 2)
   \<and> ''issue_type'' \<in> set (tool_required (list_tools ! 2))
   \<and> map_option prop_default (lookup_property (list_tools ! 2) ''issue_type'')
       = Some (Some (JStr ''Task''))
   \<and> \<not> required_without_default (list_tools ! 2)"
proof -
  have a: "''issue_type'' \<in> set (tool_required (list_tools ! 2))"
    by (simp add: list_tools_def)
  have b: "map_option prop_default (lookup_property (list_tools ! 2) ''issue_type'')
       = Some (Some (JStr ''Task''))"
    by (simp add: list_tools_def lookup_property_def param_def)
  have c: "\<not> required_without_default (list_tools ! 2)"
    by (simp add: list_tools_def required_without_default_def param_def)
  from create_tool_lookup a b c show ?thesis by simp
qed

end
